theory Spec2Isabelle
  imports Main
begin

section \<open>Values decoded from JSON\<close>

text \<open>
  The library works on the values that \<^verbatim>\<open>json.loads\<close> returns and hands
  \<^verbatim>\<open>json.dumps\<close> values of the same shape. \<open>JNull\<close> is Python's \<^verbatim>\<open>None\<close>, a
  \<open>JObj\<close> is a \<^verbatim>\<open>dict\<close> with string keys, kept as the list of its items in insertion
  order (looked up with \<open>map_of\<close>; a dictionary holds no key twice). Numbers with a
  fraction or an exponent (Python floats) are outside the model.
\<close>

datatype json =
    JNull
  | JBool bool
  | JInt int
  | JStr string
  | JArr "json list"
  | JObj "(string \<times> json) list"

type_synonym dict = "(string \<times> json) list"

text \<open>Python's truth value of a decoded value, as \<^verbatim>\<open>if x:\<close> and \<^verbatim>\<open>not x\<close> test it.\<close>

fun truthy :: "json \<Rightarrow> bool" where
  "truthy JNull = False"
| "truthy (JBool b) = b"
| "truthy (JInt n) = (n \<noteq> 0)"
| "truthy (JStr s) = (s \<noteq> [])"
| "truthy (JArr xs) = (xs \<noteq> [])"
| "truthy (JObj kvs) = (kvs \<noteq> [])"

definition dict_keys :: "dict \<Rightarrow> string list" where
  "dict_keys d = map fst d"

text \<open>\<^verbatim>\<open>d[k] = v\<close>: an existing key keeps its place, a new key goes last.\<close>

fun dict_set :: "dict \<Rightarrow> string \<Rightarrow> json \<Rightarrow> dict" where
  "dict_set [] k v = [(k, v)]"
| "dict_set ((k', v') # d) k v =
     (if k' = k then (k, v) # d else (k', v') # dict_set d k v)"

text \<open>\<^verbatim>\<open>d.update(other)\<close>: the items of \<open>other\<close> are stored one after the other.\<close>

fun dict_update :: "dict \<Rightarrow> dict \<Rightarrow> dict" where
  "dict_update d [] = d"
| "dict_update d ((k, v) # other) = dict_update (dict_set d k v) other"

section \<open>Exceptions\<close>

text \<open>
  An exception is its Python class and its message. The two messages the source formats
  with \<^verbatim>\<open>%\<close> keep their arguments instead of the formatted text; the remaining
  constructors are the \<^verbatim>\<open>TypeError\<close>s the interpreter itself raises on a call
  \<^verbatim>\<open>cls(**kwargs)\<close> and on a \<^verbatim>\<open>for\<close> loop.
\<close>

datatype msg =
    Literal string
  | Invalid_value_for string json
  | Invalid_value_expected json string
  | Unexpected_keyword string string
  | Multiple_values string string
  | Missing_arguments string "string list"
  | Not_a_mapping json
  | Not_iterable json

datatype exn =
    ValueError msg
  | TypeError msg
  | AttributeError

fun is_ValueError :: "exn + 'a \<Rightarrow> bool" where
  "is_ValueError (Inl (ValueError m)) = True"
| "is_ValueError r = False"

fun is_TypeError :: "exn + 'a \<Rightarrow> bool" where
  "is_TypeError (Inl (TypeError m)) = True"
| "is_TypeError r = False"

fun is_AttributeError :: "exn + 'a \<Rightarrow> bool" where
  "is_AttributeError (Inl AttributeError) = True"
| "is_AttributeError r = False"

text \<open>The \<^verbatim>\<open>ValueError\<close>s whose message is a fixed text, as those of \<^verbatim>\<open>from_json\<close> are.\<close>

fun is_Literal :: "exn \<Rightarrow> bool" where
  "is_Literal (ValueError (Literal s)) = True"
| "is_Literal e = False"

text \<open>Sequencing of two steps of which the first may raise.\<close>

fun and_then :: "exn + 'a \<Rightarrow> ('a \<Rightarrow> exn + 'b) \<Rightarrow> exn + 'b" where
  "and_then (Inl e) f = Inl e"
| "and_then (Inr x) f = f x"

section \<open>The entity classes\<close>

datatype cls = Data_cls | Link_cls | Query_cls | Item_cls | Template_cls | Error_cls | Collection_cls

text \<open>\<^verbatim>\<open>cls.__name__\<close>\<close>

fun cls_name :: "cls \<Rightarrow> string" where
  "cls_name Data_cls = ''Data''"
| "cls_name Link_cls = ''Link''"
| "cls_name Query_cls = ''Query''"
| "cls_name Item_cls = ''Item''"
| "cls_name Template_cls = ''Template''"
| "cls_name Error_cls = ''Error''"
| "cls_name Collection_cls = ''Collection''"

text \<open>
  An \<^verbatim>\<open>Array\<close> is a list that also carries \<^verbatim>\<open>item_class\<close> and
  \<^verbatim>\<open>collection_name\<close>; \<open>elems\<close> is the list itself. Equality of two records is
  \<^verbatim>\<open>Array.__eq__\<close>: the same attributes and the same list.
\<close>

record 'a Array =
  item_class :: cls
  collection_name :: string
  elems :: "'a list"

text \<open>
  The attributes of the entities hold decoded values: the source never checks that a
  name or an href is a string. An attribute that is \<^verbatim>\<open>None\<close> is \<open>JNull\<close>.
  Equality of two records is \<^verbatim>\<open>ComparableObject.__eq__\<close> on two instances of the
  class.
\<close>

record Data =
  name :: json
  "value" :: json
  prompt :: json

record Link =
  href :: json
  rel :: json
  name :: json
  render :: json
  prompt :: json

record Query =
  href :: json
  rel :: json
  name :: json
  prompt :: json
  data :: "Data Array"

record Item =
  href :: json
  data :: "Data Array"
  links :: "Link Array"

record Template =
  data :: "Data Array"

record Error =
  code :: json
  message :: json
  title :: json

record Collection =
  version :: json
  href :: json
  error :: "Error option"
  template :: "Template option"
  items :: "Item Array"
  links :: "Link Array"
  queries :: "Query Array"

section \<open>Serialisation: the \<^verbatim>\<open>to_dict\<close> methods\<close>

definition Data_to_dict :: "Data \<Rightarrow> dict" where
  "Data_to_dict self =
     (let output = [(''name'', Data.name self)];
          output = (if Data.value self \<noteq> JNull
                    then dict_set output ''value'' (Data.value self) else output);
          output = (if Data.prompt self \<noteq> JNull
                    then dict_set output ''prompt'' (Data.prompt self) else output)
      in output)"

definition Link_to_dict :: "Link \<Rightarrow> dict" where
  "Link_to_dict self =
     (let output = [(''href'', Link.href self), (''rel'', Link.rel self)];
          output = (if Link.name self \<noteq> JNull
                    then dict_set output ''name'' (Link.name self) else output);
          output = (if Link.render self \<noteq> JNull
                    then dict_set output ''render'' (Link.render self) else output);
          output = (if Link.prompt self \<noteq> JNull
                    then dict_set output ''prompt'' (Link.prompt self) else output)
      in output)"

text \<open>\<^verbatim>\<open>{self.collection_name: [item.to_dict() for item in self]}\<close>\<close>

definition Array_to_dict :: "('a \<Rightarrow> dict) \<Rightarrow> 'a Array \<Rightarrow> dict" where
  "Array_to_dict item_to_dict self =
     [(collection_name self, JArr (map (\<lambda>item. JObj (item_to_dict item)) (elems self)))]"

definition Query_to_dict :: "Query \<Rightarrow> dict" where
  "Query_to_dict self =
     (let output = [(''href'', Query.href self), (''rel'', Query.rel self)];
          output = (if Query.name self \<noteq> JNull
                    then dict_set output ''name'' (Query.name self) else output);
          output = (if Query.prompt self \<noteq> JNull
                    then dict_set output ''prompt'' (Query.prompt self) else output);
          output = (if length (elems (Query.data self)) \<noteq> 0
                    then dict_update output (Array_to_dict Data_to_dict (Query.data self))
                    else output)
      in output)"

text \<open>An \<^verbatim>\<open>Array\<close> is a list, so \<^verbatim>\<open>if self.data:\<close> tests that it is not empty.\<close>

definition Item_to_dict :: "Item \<Rightarrow> dict" where
  "Item_to_dict self =
     (let output = [];
          output = (if truthy (Item.href self)
                    then dict_set output ''href'' (Item.href self) else output);
          output = (if elems (Item.data self) \<noteq> []
                    then dict_update output (Array_to_dict Data_to_dict (Item.data self))
                    else output);
          output = (if elems (Item.links self) \<noteq> []
                    then dict_update output (Array_to_dict Link_to_dict (Item.links self))
                    else output)
      in output)"

definition Template_to_dict :: "Template \<Rightarrow> dict" where
  "Template_to_dict self =
     [(''template'', JObj (Array_to_dict Data_to_dict (Template.data self)))]"

definition Error_to_dict :: "Error \<Rightarrow> dict" where
  "Error_to_dict self =
     (let inner = [];
          inner = (if truthy (code self) then dict_set inner ''code'' (code self) else inner);
          inner = (if truthy (message self)
                   then dict_set inner ''message'' (message self) else inner);
          inner = (if truthy (title self) then dict_set inner ''title'' (title self) else inner)
      in [(''error'', JObj inner)])"

text \<open>
  \<^verbatim>\<open>Template\<close> and \<^verbatim>\<open>Error\<close> define neither \<^verbatim>\<open>__bool__\<close> nor
  \<^verbatim>\<open>__len__\<close> (and Python does not ask \<^verbatim>\<open>__getattr__\<close> for them), so an instance
  is true whatever it holds: \<^verbatim>\<open>if self.template:\<close> and \<^verbatim>\<open>if self.error:\<close> test
  that the attribute is not \<^verbatim>\<open>None\<close>. The updates go to the inner dictionary,
  \<^verbatim>\<open>output['collection']\<close>.
\<close>

definition Collection_to_dict :: "Collection \<Rightarrow> dict" where
  "Collection_to_dict self =
     (let inner = [(''version'', version self), (''href'', Collection.href self)];
          inner = (if elems (Collection.links self) \<noteq> []
                   then dict_update inner (Array_to_dict Link_to_dict (Collection.links self))
                   else inner);
          inner = (if elems (items self) \<noteq> []
                   then dict_update inner (Array_to_dict Item_to_dict (items self))
                   else inner);
          inner = (if elems (queries self) \<noteq> []
                   then dict_update inner (Array_to_dict Query_to_dict (queries self))
                   else inner);
          inner = (case template self of
                     None \<Rightarrow> inner
                   | Some t \<Rightarrow> dict_update inner (Template_to_dict t));
          inner = (case error self of
                     None \<Rightarrow> inner
                   | Some e \<Rightarrow> dict_update inner (Error_to_dict e))
      in [(''collection'', JObj inner)])"

section \<open>Lookup in an \<^verbatim>\<open>Array\<close>\<close>

text \<open>
  What an attribute lookup on an \<^verbatim>\<open>Array\<close> gives: \<^verbatim>\<open>Array.__getattr__\<close> returns
  one element or a list of elements; \<open>Own\<close> is an attribute that ordinary lookup
  finds on the array itself before \<^verbatim>\<open>__getattr__\<close> is asked (a method such as
  \<^verbatim>\<open>find\<close>, or a method of the built-in list).
\<close>

datatype 'a found = Single 'a | Multiple "'a list" | Own string

text \<open>
  The value of \<^verbatim>\<open>getattr(item, 'name', None)\<close> on an element: a decoded value held
  by the element, or, for an \<^verbatim>\<open>Item\<close>, what its \<^verbatim>\<open>__getattr__\<close> found in the
  data array.
\<close>

datatype attr = Plain json | Delegated "Data found"

text \<open>
  \<^verbatim>\<open>item_name == name\<close>, for an argument that is \<^verbatim>\<open>None\<close> or a string. A
  \<^verbatim>\<open>Data\<close> instance, a list of them and a bound method equal neither.
\<close>

fun attr_eq :: "attr \<Rightarrow> string option \<Rightarrow> bool" where
  "attr_eq (Plain v) None = (v = JNull)"
| "attr_eq (Plain v) (Some s) = (v = JStr s)"
| "attr_eq (Delegated f) a = False"

text \<open>
  The generator \<^verbatim>\<open>_matches\<close>, as the list of what it yields. \<open>get_name\<close> and
  \<open>get_rel\<close> are \<^verbatim>\<open>getattr(item, 'name', None)\<close> and
  \<^verbatim>\<open>getattr(item, 'rel', None)\<close> for the class of the elements.
\<close>

fun matches_loop ::
  "('a \<Rightarrow> attr) \<Rightarrow> ('a \<Rightarrow> attr) \<Rightarrow> 'a list \<Rightarrow> string option \<Rightarrow> string option \<Rightarrow> 'a list" where
  "matches_loop get_name get_rel [] by_name by_rel = []"
| "matches_loop get_name get_rel (item # rest) by_name by_rel =
     (let item_name = get_name item;
          item_rel = get_rel item
      in if by_name \<noteq> None \<and> attr_eq item_name by_name \<and> by_rel = None
         then item # matches_loop get_name get_rel rest by_name by_rel
         else if by_rel \<noteq> None \<and> attr_eq item_rel by_rel \<and> by_name = None
         then item # matches_loop get_name get_rel rest by_name by_rel
         else if attr_eq item_name by_name \<and> attr_eq item_rel by_rel
         then item # matches_loop get_name get_rel rest by_name by_rel
         else matches_loop get_name get_rel rest by_name by_rel)"

definition Array_matches ::
  "('a \<Rightarrow> attr) \<Rightarrow> ('a \<Rightarrow> attr) \<Rightarrow> 'a Array \<Rightarrow> string option \<Rightarrow> string option \<Rightarrow> 'a list" where
  "Array_matches get_name get_rel self by_name by_rel =
     matches_loop get_name get_rel (elems self) by_name by_rel"

definition Array_find ::
  "('a \<Rightarrow> attr) \<Rightarrow> ('a \<Rightarrow> attr) \<Rightarrow> 'a Array \<Rightarrow> string option \<Rightarrow> string option \<Rightarrow> 'a list" where
  "Array_find get_name get_rel self by_name by_rel =
     Array_matches get_name get_rel self by_name by_rel"

text \<open>\<^verbatim>\<open>next\<close> on the generator: its first element, \<^verbatim>\<open>StopIteration\<close> when it has none.\<close>

definition Array_get ::
  "('a \<Rightarrow> attr) \<Rightarrow> ('a \<Rightarrow> attr) \<Rightarrow> 'a Array \<Rightarrow> string option \<Rightarrow> string option \<Rightarrow> exn + 'a" where
  "Array_get get_name get_rel self by_name by_rel =
     (case Array_matches get_name get_rel self by_name by_rel of
        [] \<Rightarrow> Inl (ValueError (Literal ''No matching item found.''))
      | item # rest \<Rightarrow> Inr item)"

text \<open>\<^verbatim>\<open>Array.__getattr__\<close>, which Python calls when ordinary lookup has failed.\<close>

definition Array_getattr ::
  "('a \<Rightarrow> attr) \<Rightarrow> ('a \<Rightarrow> attr) \<Rightarrow> 'a Array \<Rightarrow> string \<Rightarrow> exn + 'a found" where
  "Array_getattr get_name get_rel self attr_name =
     (let results = Array_find get_name get_rel self (Some attr_name) None
      in if results = [] then Inl AttributeError
         else if length results = 1 then Inr (Single (hd results))
         else Inr (Multiple results))"

text \<open>
  The built-in \<^verbatim>\<open>getattr(array, name)\<close>. \<open>own\<close> tells which names ordinary lookup
  resolves on an \<^verbatim>\<open>Array\<close>: the attributes set in \<^verbatim>\<open>__init__\<close>, the methods of
  \<^verbatim>\<open>Array\<close> and \<^verbatim>\<open>ComparableObject\<close>, and those of the built-in list and object,
  which the interpreter supplies.
\<close>

definition getattr_Array ::
  "(string \<Rightarrow> bool) \<Rightarrow> ('a \<Rightarrow> attr) \<Rightarrow> ('a \<Rightarrow> attr) \<Rightarrow> 'a Array \<Rightarrow> string \<Rightarrow> exn + 'a found" where
  "getattr_Array own get_name get_rel self attr_name =
     (if own attr_name then Inr (Own attr_name)
      else Array_getattr get_name get_rel self attr_name)"

text \<open>
  \<^verbatim>\<open>getattr(item, 'name', None)\<close> and \<^verbatim>\<open>getattr(item, 'rel', None)\<close> for each class of
  element. \<^verbatim>\<open>Data\<close> has no attribute \<^verbatim>\<open>rel\<close>, so the default is returned.
\<close>

definition Data_name :: "Data \<Rightarrow> attr" where
  "Data_name item = Plain (Data.name item)"

definition Data_rel :: "Data \<Rightarrow> attr" where
  "Data_rel item = Plain JNull"

definition Link_name :: "Link \<Rightarrow> attr" where
  "Link_name item = Plain (Link.name item)"

definition Link_rel :: "Link \<Rightarrow> attr" where
  "Link_rel item = Plain (Link.rel item)"

definition Query_name :: "Query \<Rightarrow> attr" where
  "Query_name item = Plain (Query.name item)"

definition Query_rel :: "Query \<Rightarrow> attr" where
  "Query_rel item = Plain (Query.rel item)"

text \<open>\<^verbatim>\<open>Item.__getattr__\<close> and \<^verbatim>\<open>Template.__getattr__\<close>: \<^verbatim>\<open>getattr(self.data, name)\<close>.\<close>

definition Item_getattr :: "(string \<Rightarrow> bool) \<Rightarrow> Item \<Rightarrow> string \<Rightarrow> exn + Data found" where
  "Item_getattr own self attr_name =
     getattr_Array own Data_name Data_rel (Item.data self) attr_name"

definition Template_getattr :: "(string \<Rightarrow> bool) \<Rightarrow> Template \<Rightarrow> string \<Rightarrow> exn + Data found" where
  "Template_getattr own self attr_name =
     getattr_Array own Data_name Data_rel (Template.data self) attr_name"

text \<open>
  An \<^verbatim>\<open>Item\<close> has no attribute \<^verbatim>\<open>name\<close> or \<^verbatim>\<open>rel\<close> of its own, so
  \<^verbatim>\<open>getattr(item, 'name', None)\<close> goes through \<^verbatim>\<open>Item.__getattr__\<close>; the default
  replaces the \<^verbatim>\<open>AttributeError\<close>, the only exception that lookup raises.
\<close>

definition Item_name :: "(string \<Rightarrow> bool) \<Rightarrow> Item \<Rightarrow> attr" where
  "Item_name own item =
     (case Item_getattr own item ''name'' of
        Inl e \<Rightarrow> Plain JNull
      | Inr f \<Rightarrow> Delegated f)"

definition Item_rel :: "(string \<Rightarrow> bool) \<Rightarrow> Item \<Rightarrow> attr" where
  "Item_rel own item =
     (case Item_getattr own item ''rel'' of
        Inl e \<Rightarrow> Plain JNull
      | Inr f \<Rightarrow> Delegated f)"

text \<open>
  An instance of \<open>own\<close> for the examples, for Python 3: the attributes and methods
  the source gives an \<^verbatim>\<open>Array\<close>, the attributes every instance of a class has, and
  the methods of the built-in list and object.
\<close>

definition Array_members :: "string \<Rightarrow> bool" where
  "Array_members attr_name =
     (attr_name \<in> set [''item_class'', ''collection_name'', ''_build_items'', ''_matches'',
        ''find'', ''get'', ''to_dict'', ''__init__'', ''__eq__'', ''__ne__'', ''__getattr__'',
        ''__dict__'', ''__module__'', ''__weakref__'', ''__doc__'', ''__class__'',
        ''append'', ''clear'', ''copy'', ''count'', ''extend'', ''index'', ''insert'',
        ''pop'', ''remove'', ''reverse'', ''sort'',
        ''__add__'', ''__contains__'', ''__delattr__'', ''__delitem__'', ''__dir__'',
        ''__format__'', ''__ge__'', ''__getattribute__'', ''__getitem__'', ''__gt__'',
        ''__hash__'', ''__iadd__'', ''__imul__'', ''__init_subclass__'', ''__iter__'',
        ''__le__'', ''__len__'', ''__lt__'', ''__mul__'', ''__new__'', ''__reduce__'',
        ''__reduce_ex__'', ''__repr__'', ''__reversed__'', ''__rmul__'', ''__setattr__'',
        ''__setitem__'', ''__sizeof__'', ''__str__'', ''__subclasshook__''])"

section \<open>Construction\<close>

text \<open>
  The constructors are modelled on arguments that are decoded values, as
  \<^verbatim>\<open>from_json\<close> passes them; an instance as argument appears where the source tests
  for one, in \<^verbatim>\<open>_from_dict_or_value\<close> and \<^verbatim>\<open>_build_items\<close>.

  A call \<^verbatim>\<open>cls(**kwargs)\<close> with a dictionary: the interpreter refuses the first
  keyword that is \<^verbatim>\<open>self\<close> (which the call has bound already) or no parameter of
  \<^verbatim>\<open>__init__\<close>, then a call that leaves a parameter without default unset.
  \<open>kwarg\<close> reads a parameter, with its default.
\<close>

definition bind_kwargs :: "cls \<Rightarrow> string list \<Rightarrow> string list \<Rightarrow> dict \<Rightarrow> exn + unit" where
  "bind_kwargs c params required kwargs =
     (case List.find (\<lambda>k. k = ''self'' \<or> k \<notin> set params) (dict_keys kwargs) of
        Some k \<Rightarrow>
          (if k = ''self'' then Inl (TypeError (Multiple_values (cls_name c) k))
           else Inl (TypeError (Unexpected_keyword (cls_name c) k)))
      | None \<Rightarrow>
          (case filter (\<lambda>p. p \<notin> set (dict_keys kwargs)) required of
             [] \<Rightarrow> Inr ()
           | p # ps \<Rightarrow> Inl (TypeError (Missing_arguments (cls_name c) (p # ps)))))"

definition kwarg :: "dict \<Rightarrow> string \<Rightarrow> json \<Rightarrow> json" where
  "kwarg kwargs k dflt = (case map_of kwargs k of None \<Rightarrow> dflt | Some v \<Rightarrow> v)"

text \<open>\<^verbatim>\<open>cls(**kwargs)\<close> where \<^verbatim>\<open>kwargs\<close> may be any decoded value.\<close>

fun call_with :: "(dict \<Rightarrow> exn + 'a) \<Rightarrow> json \<Rightarrow> exn + 'a" where
  "call_with call (JObj kwargs) = call kwargs"
| "call_with call v = Inl (TypeError (Not_a_mapping v))"

text \<open>
  What a \<^verbatim>\<open>for\<close> loop over a decoded value goes through: the elements of a list, the
  keys of a dictionary, the characters of a string; anything else is not iterable.
\<close>

fun iterate :: "json \<Rightarrow> exn + json list" where
  "iterate (JArr xs) = Inr xs"
| "iterate (JObj kvs) = Inr (map JStr (dict_keys kvs))"
| "iterate (JStr s) = Inr (map (\<lambda>c. JStr [c]) s)"
| "iterate v = Inl (TypeError (Not_iterable v))"

text \<open>
  \<^verbatim>\<open>_from_dict_or_value\<close>. The value is an instance of the class (\<open>Inl\<close>) or a
  decoded value (\<open>Inr\<close>); \<open>call\<close> is \<^verbatim>\<open>cls(**value)\<close>.
\<close>

fun from_dict_or_value :: "cls \<Rightarrow> (dict \<Rightarrow> exn + 'a) \<Rightarrow> 'a + json \<Rightarrow> exn + 'a option" where
  "from_dict_or_value c call (Inr JNull) = Inr None"
| "from_dict_or_value c call (Inl instance) = Inr (Some instance)"
| "from_dict_or_value c call (Inr (JObj d)) = and_then (call d) (\<lambda>x. Inr (Some x))"
| "from_dict_or_value c call (Inr v) = Inl (TypeError (Invalid_value_expected v (cls_name c)))"

text \<open>
  \<^verbatim>\<open>Array._build_items\<close>: each element of the sequence is an instance of
  \<^verbatim>\<open>item_class\<close> (\<open>Inl\<close>) or a decoded value (\<open>Inr\<close>).
\<close>

fun build_items_loop ::
  "cls \<Rightarrow> (dict \<Rightarrow> exn + 'a) \<Rightarrow> 'a list \<Rightarrow> ('a + json) list \<Rightarrow> exn + 'a list" where
  "build_items_loop c call result [] = Inr result"
| "build_items_loop c call result (Inl instance # rest) =
     build_items_loop c call (result @ [instance]) rest"
| "build_items_loop c call result (Inr (JObj d) # rest) =
     (case call d of
        Inl e \<Rightarrow> Inl e
      | Inr x \<Rightarrow> build_items_loop c call (result @ [x]) rest)"
| "build_items_loop c call result (Inr v # rest) =
     Inl (ValueError (Invalid_value_for (cls_name c) v))"

definition Array_build_items ::
  "cls \<Rightarrow> (dict \<Rightarrow> exn + 'a) \<Rightarrow> ('a + json) list \<Rightarrow> exn + 'a list" where
  "Array_build_items c call seq = build_items_loop c call [] seq"

definition Array_init ::
  "cls \<Rightarrow> (dict \<Rightarrow> exn + 'a) \<Rightarrow> string \<Rightarrow> ('a + json) list \<Rightarrow> exn + 'a Array" where
  "Array_init c call cname seq =
     and_then (Array_build_items c call seq)
       (\<lambda>built. Inr \<lparr>item_class = c, collection_name = cname, elems = built\<rparr>)"

text \<open>
  \<^verbatim>\<open>_from_iterable_to_array\<close> on a decoded value. The loop of
  \<^verbatim>\<open>_build_items\<close> is where a value that is not iterable raises.
\<close>

definition from_iterable_to_array ::
  "cls \<Rightarrow> (dict \<Rightarrow> exn + 'a) \<Rightarrow> string \<Rightarrow> json \<Rightarrow> exn + 'a Array" where
  "from_iterable_to_array c call cname iterable =
     (let iterable = (if iterable = JNull then JArr [] else iterable)
      in and_then (iterate iterable) (\<lambda>xs. Array_init c call cname (map Inr xs)))"

definition Data_init :: "json \<Rightarrow> json \<Rightarrow> json \<Rightarrow> Data" where
  "Data_init n v p = \<lparr>Data.name = n, Data.value = v, Data.prompt = p\<rparr>"

definition Data_call :: "dict \<Rightarrow> exn + Data" where
  "Data_call kwargs =
     and_then (bind_kwargs Data_cls [''name'', ''value'', ''prompt''] [''name''] kwargs)
       (\<lambda>u. Inr (Data_init (kwarg kwargs ''name'' JNull) (kwarg kwargs ''value'' JNull)
                (kwarg kwargs ''prompt'' JNull)))"

definition Link_init :: "json \<Rightarrow> json \<Rightarrow> json \<Rightarrow> json \<Rightarrow> json \<Rightarrow> Link" where
  "Link_init h r n re p =
     \<lparr>Link.href = h, Link.rel = r, Link.name = n, Link.render = re, Link.prompt = p\<rparr>"

definition Link_call :: "dict \<Rightarrow> exn + Link" where
  "Link_call kwargs =
     and_then
       (bind_kwargs Link_cls [''href'', ''rel'', ''name'', ''render'', ''prompt'']
          [''href'', ''rel''] kwargs)
       (\<lambda>u. Inr (Link_init (kwarg kwargs ''href'' JNull) (kwarg kwargs ''rel'' JNull)
                (kwarg kwargs ''name'' JNull) (kwarg kwargs ''render'' JNull)
                (kwarg kwargs ''prompt'' JNull)))"

definition Query_init :: "json \<Rightarrow> json \<Rightarrow> json \<Rightarrow> json \<Rightarrow> json \<Rightarrow> exn + Query" where
  "Query_init h r n p d =
     and_then (from_iterable_to_array Data_cls Data_call ''data'' d)
       (\<lambda>arr. Inr \<lparr>Query.href = h, Query.rel = r, Query.name = n, Query.prompt = p,
                   Query.data = arr\<rparr>)"

definition Query_call :: "dict \<Rightarrow> exn + Query" where
  "Query_call kwargs =
     and_then
       (bind_kwargs Query_cls [''href'', ''rel'', ''name'', ''prompt'', ''data'']
          [''href'', ''rel''] kwargs)
       (\<lambda>u. Query_init (kwarg kwargs ''href'' JNull) (kwarg kwargs ''rel'' JNull)
                (kwarg kwargs ''name'' JNull) (kwarg kwargs ''prompt'' JNull)
                (kwarg kwargs ''data'' JNull))"

definition Item_init :: "json \<Rightarrow> json \<Rightarrow> json \<Rightarrow> exn + Item" where
  "Item_init h d l =
     and_then (from_iterable_to_array Data_cls Data_call ''data'' d)
       (\<lambda>darr. and_then (from_iterable_to_array Link_cls Link_call ''links'' l)
          (\<lambda>larr. Inr \<lparr>Item.href = h, Item.data = darr, Item.links = larr\<rparr>))"

definition Item_call :: "dict \<Rightarrow> exn + Item" where
  "Item_call kwargs =
     and_then (bind_kwargs Item_cls [''href'', ''data'', ''links''] [] kwargs)
       (\<lambda>u. Item_init (kwarg kwargs ''href'' JNull) (kwarg kwargs ''data'' JNull)
                (kwarg kwargs ''links'' JNull))"

definition Template_init :: "json \<Rightarrow> exn + Template" where
  "Template_init d =
     and_then (from_iterable_to_array Data_cls Data_call ''data'' d)
       (\<lambda>arr. Inr \<lparr>Template.data = arr\<rparr>)"

definition Template_call :: "dict \<Rightarrow> exn + Template" where
  "Template_call kwargs =
     and_then (bind_kwargs Template_cls [''data''] [] kwargs)
       (\<lambda>u. Template_init (kwarg kwargs ''data'' JNull))"

definition Error_init :: "json \<Rightarrow> json \<Rightarrow> json \<Rightarrow> Error" where
  "Error_init c m t = \<lparr>code = c, message = m, title = t\<rparr>"

definition Error_call :: "dict \<Rightarrow> exn + Error" where
  "Error_call kwargs =
     and_then (bind_kwargs Error_cls [''code'', ''message'', ''title''] [] kwargs)
       (\<lambda>u. Inr (Error_init (kwarg kwargs ''code'' JNull) (kwarg kwargs ''message'' JNull)
                (kwarg kwargs ''title'' JNull)))"

text \<open>
  \<^verbatim>\<open>Collection.__init__\<close> assigns \<^verbatim>\<open>version\<close> and \<^verbatim>\<open>href\<close>, then
  \<^verbatim>\<open>error\<close>, \<^verbatim>\<open>template\<close>, \<^verbatim>\<open>items\<close>, \<^verbatim>\<open>links\<close> and \<^verbatim>\<open>queries\<close>
  through their setters, in this order: the first that raises decides the exception.
\<close>

definition Collection_init ::
  "json \<Rightarrow> json \<Rightarrow> json \<Rightarrow> json \<Rightarrow> json \<Rightarrow> json \<Rightarrow> json \<Rightarrow> exn + Collection" where
  "Collection_init h l i q t e v =
     and_then (from_dict_or_value Error_cls Error_call (Inr e))
       (\<lambda>err. and_then (from_dict_or_value Template_cls Template_call (Inr t))
          (\<lambda>tpl. and_then (from_iterable_to_array Item_cls Item_call ''items'' i)
             (\<lambda>iarr. and_then (from_iterable_to_array Link_cls Link_call ''links'' l)
                (\<lambda>larr. and_then (from_iterable_to_array Query_cls Query_call ''queries'' q)
                   (\<lambda>qarr. Inr \<lparr>version = v, Collection.href = h, error = err,
                                template = tpl, items = iarr, Collection.links = larr,
                                queries = qarr\<rparr>)))))"

definition Collection_call :: "dict \<Rightarrow> exn + Collection" where
  "Collection_call kwargs =
     and_then
       (bind_kwargs Collection_cls
          [''href'', ''links'', ''items'', ''queries'', ''template'', ''error'', ''version'']
          [''href''] kwargs)
       (\<lambda>u. Collection_init (kwarg kwargs ''href'' JNull) (kwarg kwargs ''links'' JNull)
                (kwarg kwargs ''items'' JNull) (kwarg kwargs ''queries'' JNull)
                (kwarg kwargs ''template'' JNull) (kwarg kwargs ''error'' JNull)
                (kwarg kwargs ''version'' (JStr ''1.0'')))"

section \<open>Parsing: the \<^verbatim>\<open>from_json\<close> methods\<close>

text \<open>
  \<^verbatim>\<open>data.get(key)\<close> on what \<^verbatim>\<open>json.loads\<close> returned: only a dictionary has the
  method; on any other value the lookup of \<^verbatim>\<open>get\<close> raises \<^verbatim>\<open>AttributeError\<close>.
\<close>

fun json_get :: "json \<Rightarrow> string \<Rightarrow> exn + json" where
  "json_get (JObj kvs) k = Inr (case map_of kvs k of None \<Rightarrow> JNull | Some v \<Rightarrow> v)"
| "json_get v k = Inl AttributeError"

text \<open>
  The argument is the outcome of \<^verbatim>\<open>json.loads\<close> on the text: \<open>None\<close> when it raises
  \<^verbatim>\<open>ValueError\<close> (the text is not JSON), the decoded value otherwise. The
  \<^verbatim>\<open>except ValueError\<close> clause catches that exception and the one raised on a false
  \<^verbatim>\<open>kwargs\<close>, and nothing else.
\<close>

definition Collection_from_json :: "json option \<Rightarrow> exn + Collection" where
  "Collection_from_json decoded =
     (case decoded of
        None \<Rightarrow> Inl (ValueError (Literal ''Not a valid Collection+JSON document.''))
      | Some d \<Rightarrow>
          and_then (json_get d ''collection'')
            (\<lambda>kwargs. if \<not> truthy kwargs
               then Inl (ValueError (Literal ''Not a valid Collection+JSON document.''))
               else call_with Collection_call kwargs))"

definition Template_from_json :: "json option \<Rightarrow> exn + Template" where
  "Template_from_json decoded =
     (case decoded of
        None \<Rightarrow> Inl (ValueError (Literal ''Not valid Collection+JSON template data.''))
      | Some d \<Rightarrow>
          and_then (json_get d ''template'')
            (\<lambda>kwargs. if \<not> truthy kwargs
               then Inl (ValueError (Literal ''Not valid Collection+JSON template data.''))
               else call_with Template_call kwargs))"

section \<open>The collapsing rule and the examples of the specification\<close>

text \<open>
  Specified (section 4.1): the outcome of attribute-style lookup from the list of
  matches. No match is an \<^verbatim>\<open>AttributeError\<close>, one match is that element, several
  are the whole list.
\<close>

fun collapse_spec :: "'a list \<Rightarrow> exn + 'a found" where
  "collapse_spec [] = Inl AttributeError"
| "collapse_spec [x] = Inr (Single x)"
| "collapse_spec xs = Inr (Multiple xs)"

text \<open>The array of the specification's lookup example, as links.\<close>

definition example_links :: "Link Array" where
  "example_links =
     \<lparr>item_class = Link_cls, collection_name = ''links'',
      elems =
        [Link_init (JStr ''/1'') (JStr ''x'') (JStr ''a'') JNull JNull,
         Link_init (JStr ''/2'') (JStr ''y'') (JStr ''a'') JNull JNull,
         Link_init (JStr ''/3'') (JStr ''x'') (JStr ''b'') JNull JNull]\<rparr>"

text \<open>\<^verbatim>\<open>Item(href='/i/1', data=[{'name': 'note', 'value': 'hi'}])\<close>\<close>

definition example_item :: Item where
  "example_item =
     \<lparr>Item.href = JStr ''/i/1'',
      Item.data = \<lparr>item_class = Data_cls, collection_name = ''data'',
                    elems = [Data_init (JStr ''note'') (JStr ''hi'') JNull]\<rparr>,
      Item.links = \<lparr>item_class = Link_cls, collection_name = ''links'', elems = []\<rparr>\<rparr>"

text \<open>\<^verbatim>\<open>Item(data=[{'name': 'count', 'value': 3}])\<close>\<close>

definition example_item_count :: Item where
  "example_item_count =
     \<lparr>Item.href = JNull,
      Item.data = \<lparr>item_class = Data_cls, collection_name = ''data'',
                    elems = [Data_init (JStr ''count'') (JInt 3) JNull]\<rparr>,
      Item.links = \<lparr>item_class = Link_cls, collection_name = ''links'', elems = []\<rparr>\<rparr>"

section \<open>What construction establishes, and what serialisation keeps\<close>

text \<open>\<^verbatim>\<open>isinstance(item, dict)\<close> on a decoded value.\<close>

fun is_dict :: "json \<Rightarrow> bool" where
  "is_dict (JObj d) = True"
| "is_dict v = False"

text \<open>
  The setters build every array with the class and the name of its attribute. These
  predicates say so for the arrays of an entity and, for a collection, of its items,
  queries and template.
\<close>

definition tagged :: "cls \<Rightarrow> string \<Rightarrow> 'a Array \<Rightarrow> bool" where
  "tagged c cname arr = (item_class arr = c \<and> collection_name arr = cname)"

definition Query_built :: "Query \<Rightarrow> bool" where
  "Query_built q = tagged Data_cls ''data'' (Query.data q)"

definition Item_built :: "Item \<Rightarrow> bool" where
  "Item_built i =
     (tagged Data_cls ''data'' (Item.data i) \<and> tagged Link_cls ''links'' (Item.links i))"

definition Template_built :: "Template \<Rightarrow> bool" where
  "Template_built t = tagged Data_cls ''data'' (Template.data t)"

definition Collection_built :: "Collection \<Rightarrow> bool" where
  "Collection_built c =
     (tagged Link_cls ''links'' (Collection.links c)
      \<and> tagged Item_cls ''items'' (items c) \<and> list_all Item_built (elems (items c))
      \<and> tagged Query_cls ''queries'' (queries c) \<and> list_all Query_built (elems (queries c))
      \<and> (case template c of None \<Rightarrow> True | Some t \<Rightarrow> Template_built t))"

text \<open>
  A value that a test by truth value (\<^verbatim>\<open>if self.href:\<close>) treats as a test against
  \<^verbatim>\<open>None\<close> would: it is \<^verbatim>\<open>None\<close> or it is true. \<open>keeps_fields\<close> asks this of
  the attributes that \<^verbatim>\<open>to_dict\<close> tests by truth value: the href of every item and
  the three fields of the error.
\<close>

definition none_or_true :: "json \<Rightarrow> bool" where
  "none_or_true v = (v = JNull \<or> truthy v)"

definition keeps_fields :: "Collection \<Rightarrow> bool" where
  "keeps_fields c =
     (list_all (\<lambda>i. none_or_true (Item.href i)) (elems (items c))
      \<and> (case error c of
            None \<Rightarrow> True
          | Some e \<Rightarrow>
              none_or_true (code e) \<and> none_or_true (message e) \<and> none_or_true (title e)))"

section \<open>Example documents\<close>

definition empty_array :: "cls \<Rightarrow> string \<Rightarrow> 'a Array" where
  "empty_array c cname = \<lparr>item_class = c, collection_name = cname, elems = []\<rparr>"

text \<open>\<^verbatim>\<open>Collection(href='/h')\<close>\<close>

definition bare_collection :: Collection where
  "bare_collection =
     \<lparr>version = JStr ''1.0'', Collection.href = JStr ''/h'', error = None, template = None,
      items = empty_array Item_cls ''items'', Collection.links = empty_array Link_cls ''links'',
      queries = empty_array Query_cls ''queries''\<rparr>"

text \<open>
  The document of the specification's end-to-end scenario, decoded, and the model it is
  parsed into.
\<close>

definition doc_end_to_end :: json where
  "doc_end_to_end =
     JObj [(''collection'', JObj
       [(''version'', JStr ''1.0''), (''href'', JStr ''/h''),
        (''items'', JArr [JObj
           [(''href'', JStr ''/i/1''),
            (''data'', JArr [JObj [(''name'', JStr ''n''), (''value'', JStr ''v'')]])]])])]"

definition model_end_to_end :: Collection where
  "model_end_to_end =
     bare_collection\<lparr>items := \<lparr>item_class = Item_cls, collection_name = ''items'',
       elems = [\<lparr>Item.href = JStr ''/i/1'',
          Item.data = \<lparr>item_class = Data_cls, collection_name = ''data'',
                        elems = [Data_init (JStr ''n'') (JStr ''v'') JNull]\<rparr>,
          Item.links = empty_array Link_cls ''links''\<rparr>]\<rparr>\<rparr>"

text \<open>\<^verbatim>\<open>{"collection": {"href": "/h", "error": {"code": ""}}}\<close>\<close>

definition doc_empty_code :: json where
  "doc_empty_code =
     JObj [(''collection'', JObj
       [(''href'', JStr ''/h''), (''error'', JObj [(''code'', JStr '''')])])]"

text \<open>\<^verbatim>\<open>{"collection": {"href": "/h", "items": [{"href": ""}]}}\<close>\<close>

definition doc_empty_href :: json where
  "doc_empty_href =
     JObj [(''collection'', JObj
       [(''href'', JStr ''/h''), (''items'', JArr [JObj [(''href'', JStr '''')]])])]"

text \<open>\<^verbatim>\<open>{"collection": {"href": "/h", "template": {}, "error": {}}}\<close>\<close>

definition doc_empty_entities :: json where
  "doc_empty_entities =
     JObj [(''collection'', JObj
       [(''href'', JStr ''/h''), (''template'', JObj []), (''error'', JObj [])])]"

section \<open>The model that parsing a serialisation gives back\<close>

text \<open>
  An attribute that \<^verbatim>\<open>to_dict\<close> tests by truth value is written only when true, and
  an attribute that is not written is read back as \<^verbatim>\<open>None\<close>.
\<close>

definition drop_false :: "json \<Rightarrow> json" where
  "drop_false v = (if truthy v then v else JNull)"

definition Item_reparsed :: "Item \<Rightarrow> Item" where
  "Item_reparsed i = i\<lparr>Item.href := drop_false (Item.href i)\<rparr>"

definition Error_reparsed :: "Error \<Rightarrow> Error" where
  "Error_reparsed e =
     \<lparr>code = drop_false (code e), message = drop_false (message e),
      title = drop_false (title e)\<rparr>"

definition Collection_reparsed :: "Collection \<Rightarrow> Collection" where
  "Collection_reparsed c =
     c\<lparr>items := (items c)\<lparr>elems := map Item_reparsed (elems (items c))\<rparr>,
       error := map_option Error_reparsed (error c)\<rparr>"

section \<open>Facts about dictionaries\<close>

lemma dict_set_fresh: "k \<notin> set (dict_keys d) \<Longrightarrow> dict_set d k v = d @ [(k, v)]"
  by (induction d) (auto simp: dict_keys_def)

section \<open>Serialisation of optional fields\<close>

text \<open>
  Claim C9. \<^verbatim>\<open>Data.to_dict\<close> emits \<^verbatim>\<open>name\<close> always and \<^verbatim>\<open>value\<close> and
  \<^verbatim>\<open>prompt\<close> exactly when the attribute is not \<^verbatim>\<open>None\<close>: the key is missing for
  an absent field and present for every other value, the empty string included.
\<close>

theorem Data_to_dict_optional_fields:
  "Data_to_dict d =
     [(''name'', Data.name d)]
     @ (if Data.value d = JNull then [] else [(''value'', Data.value d)])
     @ (if Data.prompt d = JNull then [] else [(''prompt'', Data.prompt d)])
   \<and> (''value'' \<in> set (dict_keys (Data_to_dict d)) \<longleftrightarrow> Data.value d \<noteq> JNull)
   \<and> (''prompt'' \<in> set (dict_keys (Data_to_dict d)) \<longleftrightarrow> Data.prompt d \<noteq> JNull)
   \<and> map_of (Data_to_dict (d\<lparr>Data.value := JStr ''''\<rparr>)) ''value'' = Some (JStr '''')"
  by (simp add: Data_to_dict_def dict_keys_def Let_def)

theorem Data_to_dict_optional_fields_witness:
  "Data_to_dict \<lparr>Data.name = JStr ''n'', Data.value = JStr '''', Data.prompt = JNull\<rparr> =
     [(''name'', JStr ''n''), (''value'', JStr '''')]
   \<and> ''value'' \<in> set (dict_keys
         (Data_to_dict \<lparr>Data.name = JStr ''n'', Data.value = JStr '''', Data.prompt = JNull\<rparr>))
   \<and> ''prompt'' \<notin> set (dict_keys
         (Data_to_dict \<lparr>Data.name = JStr ''n'', Data.value = JStr '''', Data.prompt = JNull\<rparr>))"
  using Data_to_dict_optional_fields
    [of "\<lparr>Data.name = JStr ''n'', Data.value = JStr '''', Data.prompt = JNull\<rparr>"]
  by (simp add: dict_keys_def)

text \<open>
  Claim C10. \<^verbatim>\<open>Error.to_dict\<close> always returns a dictionary with the one key
  \<^verbatim>\<open>error\<close>; under it, \<^verbatim>\<open>code\<close>, \<^verbatim>\<open>message\<close> and \<^verbatim>\<open>title\<close> appear
  exactly when their value is true in Python's sense. An error without fields gives
  \<^verbatim>\<open>{"error": {}}\<close>, and an empty string is left out as \<^verbatim>\<open>None\<close> is.
\<close>

theorem Error_to_dict_truthy_fields:
  "Error_to_dict e =
     [(''error'', JObj
        ((if truthy (code e) then [(''code'', code e)] else [])
         @ (if truthy (message e) then [(''message'', message e)] else [])
         @ (if truthy (title e) then [(''title'', title e)] else [])))]
   \<and> (\<exists>inner. Error_to_dict e = [(''error'', JObj inner)]
         \<and> (''code'' \<in> set (dict_keys inner) \<longleftrightarrow> truthy (code e))
         \<and> (''message'' \<in> set (dict_keys inner) \<longleftrightarrow> truthy (message e))
         \<and> (''title'' \<in> set (dict_keys inner) \<longleftrightarrow> truthy (title e)))
   \<and> Error_to_dict \<lparr>code = JNull, message = JNull, title = JNull\<rparr> = [(''error'', JObj [])]
   \<and> Error_to_dict (e\<lparr>code := JStr ''''\<rparr>) = Error_to_dict (e\<lparr>code := JNull\<rparr>)
   \<and> Error_to_dict (e\<lparr>message := JStr ''''\<rparr>) = Error_to_dict (e\<lparr>message := JNull\<rparr>)
   \<and> Error_to_dict (e\<lparr>title := JStr ''''\<rparr>) = Error_to_dict (e\<lparr>title := JNull\<rparr>)"
  by (simp add: Error_to_dict_def dict_keys_def Let_def)

theorem Error_to_dict_truthy_fields_witness:
  "Error_to_dict \<lparr>code = JStr '''', message = JStr ''m'', title = JNull\<rparr> =
     [(''error'', JObj [(''message'', JStr ''m'')])]"
  using Error_to_dict_truthy_fields
    [of "\<lparr>code = JStr '''', message = JStr ''m'', title = JNull\<rparr>"]
  by simp

section \<open>Lookup by name and relation\<close>

text \<open>
  What \<^verbatim>\<open>_matches\<close> yields, for each of the four ways of calling it: the elements
  that pass a test on their own name and rel.
\<close>

lemma matches_loop_name:
  "matches_loop gn gr xs (Some n) None = filter (\<lambda>x. attr_eq (gn x) (Some n)) xs"
  by (induction xs) (simp_all add: Let_def)

lemma matches_loop_rel:
  "matches_loop gn gr xs None (Some r) = filter (\<lambda>x. attr_eq (gr x) (Some r)) xs"
  by (induction xs) (simp_all add: Let_def)

lemma matches_loop_both:
  "matches_loop gn gr xs (Some n) (Some r) =
     filter (\<lambda>x. attr_eq (gn x) (Some n) \<and> attr_eq (gr x) (Some r)) xs"
  by (induction xs) (simp_all add: Let_def)

lemma matches_loop_neither:
  "matches_loop gn gr xs None None =
     filter (\<lambda>x. attr_eq (gn x) None \<and> attr_eq (gr x) None) xs"
  by (induction xs) (simp_all add: Let_def)

lemmas matches_loop_filter =
  matches_loop_name matches_loop_rel matches_loop_both matches_loop_neither

lemma filter_empty_find: "filter P xs = [] \<longleftrightarrow> List.find P xs = None"
  by (induction xs) simp_all

lemma case_filter_find:
  "(case filter P xs of [] \<Rightarrow> a | x # rest \<Rightarrow> f x) =
   (case List.find P xs of None \<Rightarrow> a | Some x \<Rightarrow> f x)"
  by (induction xs) simp_all

lemma collapse_spec_eq:
  "(if xs = [] then Inl AttributeError
    else if length xs = 1 then Inr (Single (hd xs)) else Inr (Multiple xs)) = collapse_spec xs"
  by (cases xs rule: collapse_spec.cases) simp_all

lemma Array_get_find:
  "Array_matches gn gr a n r = filter P (elems a) \<Longrightarrow>
   Array_get gn gr a n r =
     (case List.find P (elems a) of
        None \<Rightarrow> Inl (ValueError (Literal ''No matching item found.''))
      | Some x \<Rightarrow> Inr x)"
  by (simp add: Array_get_def case_filter_find)

lemma Array_get_not_AttributeError: "\<not> is_AttributeError (Array_get gn gr a n r)"
  by (simp add: Array_get_def split: list.splits)

lemma Array_getattr_not_ValueError: "\<not> is_ValueError (Array_getattr gn gr a X)"
  by (simp add: Array_getattr_def Let_def)

text \<open>
  Claim C5. With only a name, \<^verbatim>\<open>find\<close> returns the elements whose name equals it,
  whatever their rel; with only a rel, those whose rel equals it; with both, those
  where both are equal. This holds for the elements of every class (\<open>gn\<close> and \<open>gr\<close>
  read their name and rel), and is spelled out for links. On the array of the
  specification's example, \<^verbatim>\<open>find(name="a")\<close> returns the first two elements,
  \<^verbatim>\<open>find(rel="x")\<close> the first and the third, \<^verbatim>\<open>find(name="a", rel="y")\<close> the
  second.
\<close>

theorem find_by_name_rel:
  "Array_find gn gr a (Some n) None = filter (\<lambda>x. attr_eq (gn x) (Some n)) (elems a)
   \<and> Array_find gn gr a None (Some r) = filter (\<lambda>x. attr_eq (gr x) (Some r)) (elems a)
   \<and> Array_find gn gr a (Some n) (Some r) =
       filter (\<lambda>x. attr_eq (gn x) (Some n) \<and> attr_eq (gr x) (Some r)) (elems a)
   \<and> Array_find Link_name Link_rel la (Some n) None =
       filter (\<lambda>l. Link.name l = JStr n) (elems la)
   \<and> Array_find Link_name Link_rel la None (Some r) =
       filter (\<lambda>l. Link.rel l = JStr r) (elems la)
   \<and> Array_find Link_name Link_rel la (Some n) (Some r) =
       filter (\<lambda>l. Link.name l = JStr n \<and> Link.rel l = JStr r) (elems la)
   \<and> Array_find Link_name Link_rel example_links (Some ''a'') None =
       [elems example_links ! 0, elems example_links ! 1]
   \<and> Array_find Link_name Link_rel example_links None (Some ''x'') =
       [elems example_links ! 0, elems example_links ! 2]
   \<and> Array_find Link_name Link_rel example_links (Some ''a'') (Some ''y'') =
       [elems example_links ! 1]"
  by (simp add: Array_find_def Array_matches_def matches_loop_filter
      Link_name_def Link_rel_def example_links_def Link_init_def)

theorem find_by_name_rel_witness:
  "Array_find Data_name Data_rel (Item.data example_item) (Some ''note'') None =
     [Data_init (JStr ''note'') (JStr ''hi'') JNull]
   \<and> Array_find Data_name Data_rel (Item.data example_item) None (Some ''x'') = []
   \<and> Array_find Data_name Data_rel (Item.data example_item) (Some ''note'') (Some ''x'') = []"
  using find_by_name_rel
    [of Data_name Data_rel "Item.data example_item" "''note''" "''x''"]
  by (simp add: example_item_def Data_name_def Data_rel_def Data_init_def)




text \<open>
  Claim C8, as the code has it. When a name, a rel or both are given, \<^verbatim>\<open>get\<close>
  returns the first element of the array, in order, whose name, rel or both equal the
  arguments, and raises \<^verbatim>\<open>ValueError\<close> with the message
  \<^verbatim>\<open>No matching item found.\<close> exactly when the array has no such element. When
  neither is given it returns the first element whose name and rel are both
  \<^verbatim>\<open>None\<close>, and raises only when there is none. The exception is never the
  \<^verbatim>\<open>AttributeError\<close> of attribute lookup, and attribute lookup never raises a
  \<^verbatim>\<open>ValueError\<close>. On the array of the specification's example,
  \<^verbatim>\<open>get(name="c")\<close> raises, \<^verbatim>\<open>get(name="a", rel="y")\<close> is the second element and
  \<^verbatim>\<open>get(rel="x")\<close> the first.
\<close>

theorem get_first_match:
  "Array_get gn gr a (Some n) None =
     (case List.find (\<lambda>x. attr_eq (gn x) (Some n)) (elems a) of
        None \<Rightarrow> Inl (ValueError (Literal ''No matching item found.''))
      | Some x \<Rightarrow> Inr x)
   \<and> Array_get gn gr a None (Some r) =
     (case List.find (\<lambda>x. attr_eq (gr x) (Some r)) (elems a) of
        None \<Rightarrow> Inl (ValueError (Literal ''No matching item found.''))
      | Some x \<Rightarrow> Inr x)
   \<and> Array_get gn gr a (Some n) (Some r) =
     (case List.find (\<lambda>x. attr_eq (gn x) (Some n) \<and> attr_eq (gr x) (Some r)) (elems a) of
        None \<Rightarrow> Inl (ValueError (Literal ''No matching item found.''))
      | Some x \<Rightarrow> Inr x)
   \<and> Array_get gn gr a None None =
     (case List.find (\<lambda>x. attr_eq (gn x) None \<and> attr_eq (gr x) None) (elems a) of
        None \<Rightarrow> Inl (ValueError (Literal ''No matching item found.''))
      | Some x \<Rightarrow> Inr x)
   \<and> (is_ValueError (Array_get gn gr a (Some n) None) \<longleftrightarrow>
        filter (\<lambda>x. attr_eq (gn x) (Some n)) (elems a) = [])
   \<and> (is_ValueError (Array_get gn gr a None (Some r)) \<longleftrightarrow>
        filter (\<lambda>x. attr_eq (gr x) (Some r)) (elems a) = [])
   \<and> (is_ValueError (Array_get gn gr a (Some n) (Some r)) \<longleftrightarrow>
        filter (\<lambda>x. attr_eq (gn x) (Some n) \<and> attr_eq (gr x) (Some r)) (elems a) = [])
   \<and> (is_ValueError (Array_get gn gr a None None) \<longleftrightarrow>
        filter (\<lambda>x. attr_eq (gn x) None \<and> attr_eq (gr x) None) (elems a) = [])
   \<and> Array_get Link_name Link_rel la (Some n) None =
     (case List.find (\<lambda>l. Link.name l = JStr n) (elems la) of
        None \<Rightarrow> Inl (ValueError (Literal ''No matching item found.''))
      | Some l \<Rightarrow> Inr l)
   \<and> Array_get Link_name Link_rel la None (Some r) =
     (case List.find (\<lambda>l. Link.rel l = JStr r) (elems la) of
        None \<Rightarrow> Inl (ValueError (Literal ''No matching item found.''))
      | Some l \<Rightarrow> Inr l)
   \<and> Array_get Link_name Link_rel la (Some n) (Some r) =
     (case List.find (\<lambda>l. Link.name l = JStr n \<and> Link.rel l = JStr r) (elems la) of
        None \<Rightarrow> Inl (ValueError (Literal ''No matching item found.''))
      | Some l \<Rightarrow> Inr l)
   \<and> \<not> is_AttributeError (Array_get gn gr a by_n by_r)
   \<and> \<not> is_ValueError (Array_getattr gn gr a X)
   \<and> Array_get Link_name Link_rel example_links (Some ''c'') None =
       Inl (ValueError (Literal ''No matching item found.''))
   \<and> Array_get Link_name Link_rel example_links (Some ''a'') (Some ''y'') =
       Inr (elems example_links ! 1)
   \<and> Array_get Link_name Link_rel example_links None (Some ''x'') =
       Inr (elems example_links ! 0)"
proof -
  have general:
    "Array_get gn gr a (Some n) None =
       (case List.find (\<lambda>x. attr_eq (gn x) (Some n)) (elems a) of
          None \<Rightarrow> Inl (ValueError (Literal ''No matching item found.''))
        | Some x \<Rightarrow> Inr x)"
    "Array_get gn gr a None (Some r) =
       (case List.find (\<lambda>x. attr_eq (gr x) (Some r)) (elems a) of
          None \<Rightarrow> Inl (ValueError (Literal ''No matching item found.''))
        | Some x \<Rightarrow> Inr x)"
    "Array_get gn gr a (Some n) (Some r) =
       (case List.find (\<lambda>x. attr_eq (gn x) (Some n) \<and> attr_eq (gr x) (Some r)) (elems a) of
          None \<Rightarrow> Inl (ValueError (Literal ''No matching item found.''))
        | Some x \<Rightarrow> Inr x)"
    "Array_get gn gr a None None =
       (case List.find (\<lambda>x. attr_eq (gn x) None \<and> attr_eq (gr x) None) (elems a) of
          None \<Rightarrow> Inl (ValueError (Literal ''No matching item found.''))
        | Some x \<Rightarrow> Inr x)"
    for gn gr :: "'b \<Rightarrow> attr" and a n r
    by (rule Array_get_find, simp add: Array_matches_def matches_loop_filter)+
  have fails:
    "is_ValueError (Array_get gn gr a (Some n) None) \<longleftrightarrow>
       filter (\<lambda>x. attr_eq (gn x) (Some n)) (elems a) = []"
    "is_ValueError (Array_get gn gr a None (Some r)) \<longleftrightarrow>
       filter (\<lambda>x. attr_eq (gr x) (Some r)) (elems a) = []"
    "is_ValueError (Array_get gn gr a (Some n) (Some r)) \<longleftrightarrow>
       filter (\<lambda>x. attr_eq (gn x) (Some n) \<and> attr_eq (gr x) (Some r)) (elems a) = []"
    "is_ValueError (Array_get gn gr a None None) \<longleftrightarrow>
       filter (\<lambda>x. attr_eq (gn x) None \<and> attr_eq (gr x) None) (elems a) = []"
    by (simp_all add: Array_get_def Array_matches_def matches_loop_filter split: list.splits)
  have links:
    "Array_get Link_name Link_rel la (Some n) None =
       (case List.find (\<lambda>l. Link.name l = JStr n) (elems la) of
          None \<Rightarrow> Inl (ValueError (Literal ''No matching item found.''))
        | Some l \<Rightarrow> Inr l)"
    "Array_get Link_name Link_rel la None (Some r) =
       (case List.find (\<lambda>l. Link.rel l = JStr r) (elems la) of
          None \<Rightarrow> Inl (ValueError (Literal ''No matching item found.''))
        | Some l \<Rightarrow> Inr l)"
    "Array_get Link_name Link_rel la (Some n) (Some r) =
       (case List.find (\<lambda>l. Link.name l = JStr n \<and> Link.rel l = JStr r) (elems la) of
          None \<Rightarrow> Inl (ValueError (Literal ''No matching item found.''))
        | Some l \<Rightarrow> Inr l)"
    for la n r
    by (simp_all add: general Link_name_def Link_rel_def)
  have examples:
    "Array_get Link_name Link_rel example_links (Some ''c'') None =
       Inl (ValueError (Literal ''No matching item found.''))"
    "Array_get Link_name Link_rel example_links (Some ''a'') (Some ''y'') =
       Inr (elems example_links ! 1)"
    "Array_get Link_name Link_rel example_links None (Some ''x'') =
       Inr (elems example_links ! 0)"
    by (simp_all add: links example_links_def Link_init_def)
  show ?thesis
    by (intro conjI general fails links examples Array_get_not_AttributeError
        Array_getattr_not_ValueError)
qed

theorem get_first_match_witness:
  "Array_get Data_name Data_rel (Item.data example_item) (Some ''note'') None =
     Inr (Data_init (JStr ''note'') (JStr ''hi'') JNull)
   \<and> Array_get Data_name Data_rel (Item.data example_item) (Some ''other'') None =
     Inl (ValueError (Literal ''No matching item found.''))
   \<and> Array_getattr Data_name Data_rel (Item.data example_item) ''other'' = Inl AttributeError"
  using get_first_match [of Data_name Data_rel "Item.data example_item" "''note''" "''x''"
      example_links "None" "None" "''other''"]
    get_first_match [of Data_name Data_rel "Item.data example_item" "''other''" "''x''"
      example_links "None" "None" "''other''"]
  by (simp add: example_item_def Data_name_def Data_rel_def Data_init_def
      Array_getattr_def Array_find_def Array_matches_def)

text \<open>
  The claim as stated, with the matching rule of the specification (no element matches
  when neither name nor rel is given), fails for \<^verbatim>\<open>get()\<close>: on a collection's
  items, and on a data field whose name is \<^verbatim>\<open>None\<close>, it returns the first element
  and raises nothing.
\<close>

theorem get_first_match_counterexample:
  "Array_get (Item_name Array_members) (Item_rel Array_members)
     \<lparr>item_class = Item_cls, collection_name = ''items'', elems = [example_item]\<rparr> None None
   = Inr example_item
   \<and> Array_get Data_name Data_rel
       \<lparr>item_class = Data_cls, collection_name = ''data'',
        elems = [Data_init JNull (JStr ''v'') JNull]\<rparr> None None
     = Inr (Data_init JNull (JStr ''v'') JNull)"
  by (simp add: Array_get_def Array_matches_def Item_name_def Item_rel_def Item_getattr_def
      getattr_Array_def Array_getattr_def Array_find_def Array_members_def example_item_def
      Data_name_def Data_rel_def Data_init_def Let_def)

text \<open>
  Claim C6, as the code has it. \<^verbatim>\<open>Array.__getattr__\<close>, which Python calls for a name
  that ordinary lookup does not find on the array, is \<^verbatim>\<open>find(name=X)\<close> collapsed by
  the specified rule: no match raises \<^verbatim>\<open>AttributeError\<close>, one match is returned
  alone, several are returned as the list. An \<^verbatim>\<open>Item\<close> and a \<^verbatim>\<open>Template\<close> hand a
  name unknown on themselves to \<^verbatim>\<open>getattr\<close> on their data array: a name the array
  itself has (an attribute or method of \<^verbatim>\<open>Array\<close> or of the built-in list) gives that
  attribute of the array, whatever the data fields are called, and every other name
  gives the collapsed \<^verbatim>\<open>find(name=X)\<close>, whose matches are the fields named \<open>X\<close>.
\<close>

theorem getattr_delegation:
  "Array_getattr gn gr a X = collapse_spec (Array_find gn gr a (Some X) None)
   \<and> getattr_Array own gn gr a X =
       (if own X then Inr (Own X) else collapse_spec (Array_find gn gr a (Some X) None))
   \<and> Item_getattr own i X =
       (if own X then Inr (Own X)
        else collapse_spec (filter (\<lambda>d. Data.name d = JStr X) (elems (Item.data i))))
   \<and> Template_getattr own t X =
       (if own X then Inr (Own X)
        else collapse_spec (filter (\<lambda>d. Data.name d = JStr X) (elems (Template.data t))))
   \<and> Array_find Data_name Data_rel (Item.data i) (Some X) None =
       filter (\<lambda>d. Data.name d = JStr X) (elems (Item.data i))
   \<and> Array_find Data_name Data_rel (Template.data t) (Some X) None =
       filter (\<lambda>d. Data.name d = JStr X) (elems (Template.data t))"
  by (simp add: Array_getattr_def Item_getattr_def Template_getattr_def getattr_Array_def
      Let_def collapse_spec_eq Array_find_def Array_matches_def matches_loop_filter
      Data_name_def)

theorem getattr_delegation_witness:
  "Item_getattr Array_members example_item ''note'' =
     Inr (Single (Data_init (JStr ''note'') (JStr ''hi'') JNull))
   \<and> Item_getattr Array_members example_item ''missing'' = Inl AttributeError
   \<and> Template_getattr Array_members
       \<lparr>Template.data = \<lparr>item_class = Data_cls, collection_name = ''data'',
          elems = [Data_init (JStr ''f'') JNull JNull, Data_init (JStr ''f'') (JInt 1) JNull]\<rparr>\<rparr>
       ''f'' =
     Inr (Multiple [Data_init (JStr ''f'') JNull JNull, Data_init (JStr ''f'') (JInt 1) JNull])
   \<and> Item_getattr Array_members example_item ''find'' = Inr (Own ''find'')"
  using getattr_delegation [of Link_name Link_rel example_links "''note''" Array_members
        example_item "\<lparr>Template.data = Item.data example_item\<rparr>"]
    getattr_delegation [of Link_name Link_rel example_links "''missing''" Array_members
        example_item "\<lparr>Template.data = Item.data example_item\<rparr>"]
    getattr_delegation [of Link_name Link_rel example_links "''f''" Array_members
        example_item
        "\<lparr>Template.data = \<lparr>item_class = Data_cls, collection_name = ''data'',
          elems = [Data_init (JStr ''f'') JNull JNull, Data_init (JStr ''f'') (JInt 1) JNull]\<rparr>\<rparr>"]
    getattr_delegation [of Link_name Link_rel example_links "''find''" Array_members
        example_item "\<lparr>Template.data = Item.data example_item\<rparr>"]
  by (simp add: example_item_def Data_init_def Array_members_def)

text \<open>
  The claim as stated fails for a data field called like a method of the list:
  on \<^verbatim>\<open>Item(data=[{'name': 'count', 'value': 3}])\<close> the attribute \<^verbatim>\<open>count\<close> is
  unknown on the item, \<^verbatim>\<open>find(name='count')\<close> on its data has exactly one match, and
  the lookup returns the bound method \<^verbatim>\<open>count\<close> of the data array instead.
\<close>

theorem getattr_delegation_counterexample:
  "Item_getattr Array_members example_item_count ''count'' = Inr (Own ''count'')
   \<and> collapse_spec
       (Array_find Data_name Data_rel (Item.data example_item_count) (Some ''count'') None) =
     Inr (Single (Data_init (JStr ''count'') (JInt 3) JNull))
   \<and> Item_getattr Array_members example_item_count ''count'' \<noteq>
     collapse_spec
       (Array_find Data_name Data_rel (Item.data example_item_count) (Some ''count'') None)"
  by (simp add: Item_getattr_def getattr_Array_def Array_members_def example_item_count_def
      Array_find_def Array_matches_def Data_name_def Data_rel_def Data_init_def Let_def)

section \<open>Errors of construction\<close>

lemma build_items_loop_append:
  "build_items_loop c call acc (pre @ rest) =
     (case build_items_loop c call acc pre of
        Inl e \<Rightarrow> Inl e
      | Inr acc' \<Rightarrow> build_items_loop c call acc' rest)"
  by (induction c call acc pre rule: build_items_loop.induct) (simp_all split: sum.splits)

lemma build_items_loop_invalid:
  "\<not> is_dict v \<Longrightarrow>
     build_items_loop c call acc (Inr v # post) =
       Inl (ValueError (Invalid_value_for (cls_name c) v))"
  by (cases v) simp_all

text \<open>
  Claim C4, as the code has it. When the elements before it are accepted, an element
  that is neither an instance of the item class nor a dictionary makes
  \<^verbatim>\<open>_build_items\<close>, and with it the construction of the array, raise a
  \<^verbatim>\<open>ValueError\<close> whose message is formatted from the name of the item class and the
  offending value.
\<close>

theorem build_items_invalid_element:
  "Array_build_items c call pre = Inr built \<Longrightarrow> \<not> is_dict v \<Longrightarrow>
     Array_build_items c call (pre @ Inr v # post) =
       Inl (ValueError (Invalid_value_for (cls_name c) v))
   \<and> Array_init c call cname (pre @ Inr v # post) =
       Inl (ValueError (Invalid_value_for (cls_name c) v))"
  by (simp add: Array_build_items_def Array_init_def build_items_loop_append
      build_items_loop_invalid)

theorem build_items_invalid_element_witness:
  "Array_init Item_cls Item_call ''items'' [Inl example_item, Inr (JInt 5), Inr (JObj [])] =
     Inl (ValueError (Invalid_value_for ''Item'' (JInt 5)))"
proof -
  have b: "Array_build_items Item_cls Item_call [Inl example_item] = Inr [example_item]"
    by (simp add: Array_build_items_def)
  have d: "\<not> is_dict (JInt 5)" by simp
  show ?thesis
    using build_items_invalid_element [OF b d, of "[Inr (JObj [])]" "''items''"] by simp
qed

text \<open>
  The claim as stated asks for a \<^verbatim>\<open>TypeError\<close>. A bare integer among the items of a
  collection raises \<^verbatim>\<open>ValueError\<close>, naming \<^verbatim>\<open>Item\<close> and the integer.
\<close>

theorem build_items_invalid_element_counterexample:
  "Collection_call [(''href'', JStr ''/h''), (''items'', JArr [JInt 5])] =
     Inl (ValueError (Invalid_value_for ''Item'' (JInt 5)))
   \<and> \<not> is_TypeError (Collection_call [(''href'', JStr ''/h''), (''items'', JArr [JInt 5])])"
  by (simp add: Collection_call_def bind_kwargs_def dict_keys_def kwarg_def Collection_init_def
      from_iterable_to_array_def Array_init_def Array_build_items_def)

section \<open>Parsing a text that is JSON but no object\<close>

text \<open>
  Claim C7 at the inputs where the code leaves it. The texts \<^verbatim>\<open>[]\<close>, \<^verbatim>\<open>null\<close> and
  \<^verbatim>\<open>5\<close> are valid JSON without a \<^verbatim>\<open>collection\<close> (or \<^verbatim>\<open>template\<close>) key, yet
  \<^verbatim>\<open>from_json\<close> does not raise the \<^verbatim>\<open>ValueError\<close> of its docstring: the decoded
  value has no method \<^verbatim>\<open>get\<close>, and the \<^verbatim>\<open>AttributeError\<close> passes the
  \<^verbatim>\<open>except ValueError\<close> clause.
\<close>

theorem from_json_not_an_object:
  "Collection_from_json (Some (JArr [])) = Inl AttributeError
   \<and> Template_from_json (Some (JArr [])) = Inl AttributeError
   \<and> Collection_from_json (Some JNull) = Inl AttributeError
   \<and> Collection_from_json (Some (JInt 5)) = Inl AttributeError
   \<and> \<not> is_ValueError (Collection_from_json (Some (JArr [])))
   \<and> \<not> is_ValueError (Template_from_json (Some (JArr [])))"
  by (simp add: Collection_from_json_def Template_from_json_def)

section \<open>What the constructors establish\<close>

lemma and_then_Inr: "and_then r f = Inr y \<longleftrightarrow> (\<exists>x. r = Inr x \<and> f x = Inr y)"
  by (cases r) auto

lemma build_items_loop_all:
  "build_items_loop c call acc (map Inr xs) = Inr res \<Longrightarrow> list_all P acc \<Longrightarrow>
   (\<And>d x. call d = Inr x \<Longrightarrow> P x) \<Longrightarrow> list_all P res"
proof (induction xs arbitrary: acc)
  case Nil
  then show ?case by simp
next
  case (Cons v xs)
  show ?case
  proof (cases v)
    case (JObj d)
    with Cons.prems(1) obtain x where x: "call d = Inr x"
      and rest: "build_items_loop c call (acc @ [x]) (map Inr xs) = Inr res"
      by (auto split: sum.splits)
    have "list_all P (acc @ [x])" using Cons.prems(2) Cons.prems(3)[OF x] by simp
    from Cons.IH[OF rest this Cons.prems(3)] show ?thesis .
  qed (use Cons.prems(1) in simp_all)
qed

lemma from_iterable_to_array_tagged:
  "from_iterable_to_array c call cname v = Inr arr \<Longrightarrow> tagged c cname arr"
  by (auto simp: from_iterable_to_array_def Array_init_def and_then_Inr tagged_def Let_def)

lemma from_iterable_to_array_all:
  assumes "from_iterable_to_array c call cname v = Inr arr"
    and "\<And>d x. call d = Inr x \<Longrightarrow> P x"
  shows "list_all P (elems arr)"
proof -
  from assms(1) obtain xs where
    "build_items_loop c call [] (map Inr xs) = Inr (elems arr)"
    by (auto simp: from_iterable_to_array_def Array_init_def Array_build_items_def
        and_then_Inr Let_def)
  from build_items_loop_all[OF this _ assms(2)] show ?thesis by simp
qed

lemma Query_call_built: "Query_call kw = Inr q \<Longrightarrow> Query_built q"
  by (auto simp: Query_call_def Query_init_def and_then_Inr Query_built_def
      dest: from_iterable_to_array_tagged)

lemma Item_call_built: "Item_call kw = Inr i \<Longrightarrow> Item_built i"
  by (auto simp: Item_call_def Item_init_def and_then_Inr Item_built_def
      dest: from_iterable_to_array_tagged)

lemma Template_call_built: "Template_call kw = Inr t \<Longrightarrow> Template_built t"
  by (auto simp: Template_call_def Template_init_def and_then_Inr Template_built_def
      dest: from_iterable_to_array_tagged)

lemma from_dict_or_value_Template:
  "from_dict_or_value Template_cls Template_call (Inr v) = Inr (Some t) \<Longrightarrow> Template_built t"
  by (cases v) (auto simp: and_then_Inr dest: Template_call_built)

lemma Collection_call_built: "Collection_call kw = Inr c \<Longrightarrow> Collection_built c"
  unfolding Collection_call_def Collection_init_def and_then_Inr
  by (auto simp: Collection_built_def dest: from_iterable_to_array_tagged
      from_dict_or_value_Template
      intro: from_iterable_to_array_all[where call=Item_call] Item_call_built
        from_iterable_to_array_all[where call=Query_call] Query_call_built
      split: option.splits)

lemma from_json_built:
  assumes "Collection_from_json D = Inr M"
  shows "Collection_built M"
proof -
  from assms obtain kw where "call_with Collection_call kw = Inr M"
    by (auto simp: Collection_from_json_def and_then_Inr split: option.splits if_splits)
  then obtain kwargs where "Collection_call kwargs = Inr M" by (cases kw) auto
  then show ?thesis by (rule Collection_call_built)
qed

section \<open>Serialisation of a collection\<close>

lemma Collection_to_dict_shape:
  "Collection_built c \<Longrightarrow>
   Collection_to_dict c =
     [(''collection'', JObj
        ([(''version'', version c), (''href'', Collection.href c)]
         @ (if elems (Collection.links c) = [] then []
            else [(''links'', JArr (map (\<lambda>x. JObj (Link_to_dict x)) (elems (Collection.links c))))])
         @ (if elems (items c) = [] then []
            else [(''items'', JArr (map (\<lambda>x. JObj (Item_to_dict x)) (elems (items c))))])
         @ (if elems (queries c) = [] then []
            else [(''queries'', JArr (map (\<lambda>x. JObj (Query_to_dict x)) (elems (queries c))))])
         @ (case template c of None \<Rightarrow> [] | Some t \<Rightarrow> Template_to_dict t)
         @ (case error c of None \<Rightarrow> [] | Some e \<Rightarrow> Error_to_dict e)))]"
  by (simp add: Collection_to_dict_def Collection_built_def tagged_def Array_to_dict_def
      Template_to_dict_def Error_to_dict_def Let_def split: option.splits)

lemmas evaluation =
  Collection_from_json_def Collection_call_def Collection_init_def bind_kwargs_def
  dict_keys_def kwarg_def from_iterable_to_array_def Array_init_def Array_build_items_def
  Item_call_def Item_init_def Data_call_def Data_init_def Error_call_def Error_init_def
  Template_call_def Template_init_def Link_call_def Link_init_def Query_call_def Query_init_def
  Collection_to_dict_def Array_to_dict_def Item_to_dict_def Data_to_dict_def Error_to_dict_def
  Template_to_dict_def Link_to_dict_def Query_to_dict_def Let_def empty_array_def
  bare_collection_def

text \<open>
  Claim C2, as the code has it. For every collection the constructor builds,
  \<^verbatim>\<open>to_dict\<close> returns \<^verbatim>\<open>{"collection": inner}\<close> where \<open>inner\<close> holds
  \<^verbatim>\<open>version\<close> and \<^verbatim>\<open>href\<close>, then what \<^verbatim>\<open>links\<close>, \<^verbatim>\<open>items\<close>,
  \<^verbatim>\<open>queries\<close>, \<^verbatim>\<open>template\<close> and \<^verbatim>\<open>error\<close> serialise to, in this order. An
  array contributes its key exactly when it is not empty; the template and the error
  contribute theirs exactly when they are not \<^verbatim>\<open>None\<close>, whatever they hold.
\<close>

theorem Collection_to_dict_keys:
  "Collection_call kwargs = Inr c \<Longrightarrow>
   (\<exists>inner. Collection_to_dict c = [(''collection'', JObj inner)]
      \<and> inner =
          [(''version'', version c), (''href'', Collection.href c)]
          @ (if elems (Collection.links c) = [] then []
             else Array_to_dict Link_to_dict (Collection.links c))
          @ (if elems (items c) = [] then [] else Array_to_dict Item_to_dict (items c))
          @ (if elems (queries c) = [] then [] else Array_to_dict Query_to_dict (queries c))
          @ (case template c of None \<Rightarrow> [] | Some t \<Rightarrow> Template_to_dict t)
          @ (case error c of None \<Rightarrow> [] | Some e \<Rightarrow> Error_to_dict e)
      \<and> dict_keys inner =
          [''version'', ''href'']
          @ (if elems (Collection.links c) = [] then [] else [''links''])
          @ (if elems (items c) = [] then [] else [''items''])
          @ (if elems (queries c) = [] then [] else [''queries''])
          @ (case template c of None \<Rightarrow> [] | Some t \<Rightarrow> [''template''])
          @ (case error c of None \<Rightarrow> [] | Some e \<Rightarrow> [''error'']))"
proof -
  assume "Collection_call kwargs = Inr c"
  then have b: "Collection_built c" by (rule Collection_call_built)
  show ?thesis
    unfolding Collection_to_dict_shape[OF b]
    using b
    by (simp add: Collection_built_def tagged_def Array_to_dict_def dict_keys_def
        Template_to_dict_def Error_to_dict_def Let_def split: option.splits)
qed

text \<open>
  The end-to-end scenario of the specification: serialising the parsed model gives the
  document back, without \<^verbatim>\<open>links\<close>, \<^verbatim>\<open>queries\<close>, \<^verbatim>\<open>template\<close> or
  \<^verbatim>\<open>error\<close>.
\<close>

theorem Collection_to_dict_keys_witness:
  "Collection_call
     [(''version'', JStr ''1.0''), (''href'', JStr ''/h''),
      (''items'', JArr [JObj
         [(''href'', JStr ''/i/1''),
          (''data'', JArr [JObj [(''name'', JStr ''n''), (''value'', JStr ''v'')]])]])]
     = Inr model_end_to_end
   \<and> JObj (Collection_to_dict model_end_to_end) = doc_end_to_end"
proof -
  have p: "Collection_call
     [(''version'', JStr ''1.0''), (''href'', JStr ''/h''),
      (''items'', JArr [JObj
         [(''href'', JStr ''/i/1''),
          (''data'', JArr [JObj [(''name'', JStr ''n''), (''value'', JStr ''v'')]])]])]
     = Inr model_end_to_end"
    by (simp add: model_end_to_end_def evaluation)
  from p Collection_to_dict_keys[OF p] show ?thesis
    by (auto simp: doc_end_to_end_def model_end_to_end_def evaluation)
qed

text \<open>
  The claim as stated fails for a template without data and an error without fields:
  both are instances, hence true, and each contributes its key.
\<close>

theorem Collection_to_dict_keys_counterexample:
  "Collection_from_json (Some doc_empty_entities) =
     Inr (bare_collection\<lparr>
        error := Some \<lparr>code = JNull, message = JNull, title = JNull\<rparr>,
        template := Some \<lparr>Template.data = empty_array Data_cls ''data''\<rparr>\<rparr>)
   \<and> Collection_to_dict (bare_collection\<lparr>
        error := Some \<lparr>code = JNull, message = JNull, title = JNull\<rparr>,
        template := Some \<lparr>Template.data = empty_array Data_cls ''data''\<rparr>\<rparr>) =
     [(''collection'', JObj
        [(''version'', JStr ''1.0''), (''href'', JStr ''/h''),
         (''template'', JObj [(''data'', JArr [])]), (''error'', JObj [])])]"
  by (simp add: doc_empty_entities_def evaluation)

section \<open>Round trip through serialisation\<close>

lemma drop_false_id: "drop_false v = v \<longleftrightarrow> none_or_true v"
  by (auto simp: drop_false_def none_or_true_def)

lemma Item_reparsed_id: "Item_reparsed i = i \<longleftrightarrow> none_or_true (Item.href i)"
  by (cases i) (simp add: Item_reparsed_def drop_false_id)

lemma Error_reparsed_id:
  "Error_reparsed e = e \<longleftrightarrow>
     none_or_true (code e) \<and> none_or_true (message e) \<and> none_or_true (title e)"
  by (cases e) (simp add: Error_reparsed_def drop_false_id)

lemma map_id_iff: "map f xs = xs \<longleftrightarrow> list_all (\<lambda>x. f x = x) xs"
  by (induction xs) simp_all

lemma Collection_reparsed_id: "Collection_reparsed c = c \<longleftrightarrow> keeps_fields c"
proof -
  have "Collection_reparsed c = c \<longleftrightarrow>
      map Item_reparsed (elems (items c)) = elems (items c)
      \<and> map_option Error_reparsed (error c) = error c"
    by (cases c, cases "items c") (auto simp: Collection_reparsed_def)
  also have "\<dots> \<longleftrightarrow> keeps_fields c"
    by (cases "error c")
      (simp_all add: keeps_fields_def map_id_iff Item_reparsed_id Error_reparsed_id)
  finally show ?thesis .
qed

lemma Data_roundtrip: "Data_call (Data_to_dict d) = Inr d"
  by (cases d)
    (simp add: Data_call_def Data_to_dict_def bind_kwargs_def dict_keys_def kwarg_def
      Data_init_def Let_def)

lemma Link_roundtrip: "Link_call (Link_to_dict l) = Inr l"
  by (cases l)
    (simp add: Link_call_def Link_to_dict_def bind_kwargs_def dict_keys_def kwarg_def
      Link_init_def Let_def)

lemma build_items_loop_roundtrip:
  "(\<And>x. x \<in> set xs \<Longrightarrow> call (to_d x) = Inr (f x)) \<Longrightarrow>
   build_items_loop c call acc (map (\<lambda>x. Inr (JObj (to_d x))) xs) = Inr (acc @ map f xs)"
  by (induction xs arbitrary: acc) simp_all

lemma array_roundtrip_map:
  assumes "\<And>x. x \<in> set (elems arr) \<Longrightarrow> call (to_d x) = Inr (f x)"
  shows "from_iterable_to_array c call cname
           (JArr (map (\<lambda>x. JObj (to_d x)) (elems arr))) =
         Inr \<lparr>item_class = c, collection_name = cname, elems = map f (elems arr)\<rparr>"
  using build_items_loop_roundtrip[of "elems arr" call to_d f c "[]"] assms
  by (simp add: from_iterable_to_array_def Array_init_def Array_build_items_def comp_def)

lemma array_roundtrip_absent:
  assumes "tagged c cname arr" and "\<And>x. x \<in> set (elems arr) \<Longrightarrow> call (to_d x) = Inr (f x)"
  shows "from_iterable_to_array c call cname
           (if elems arr = [] then JNull else JArr (map (\<lambda>x. JObj (to_d x)) (elems arr))) =
         Inr (arr\<lparr>elems := map f (elems arr)\<rparr>)"
proof (cases "elems arr = []")
  case True
  with assms(1) show ?thesis
    by (cases arr)
      (simp add: from_iterable_to_array_def Array_init_def Array_build_items_def tagged_def)
next
  case False
  have "from_iterable_to_array c call cname (JArr (map (\<lambda>x. JObj (to_d x)) (elems arr))) =
      Inr \<lparr>item_class = c, collection_name = cname, elems = map f (elems arr)\<rparr>"
    by (rule array_roundtrip_map) (rule assms(2))
  with False assms(1) show ?thesis
    by (cases arr) (simp add: tagged_def)
qed

lemma array_roundtrip:
  assumes "tagged c cname arr" and "\<And>x. x \<in> set (elems arr) \<Longrightarrow> call (to_d x) = Inr x"
  shows "from_iterable_to_array c call cname
           (if elems arr = [] then JNull else JArr (map (\<lambda>x. JObj (to_d x)) (elems arr))) = Inr arr"
proof -
  have "from_iterable_to_array c call cname
           (if elems arr = [] then JNull else JArr (map (\<lambda>x. JObj (to_d x)) (elems arr))) =
         Inr (arr\<lparr>elems := map (\<lambda>x. x) (elems arr)\<rparr>)"
    by (rule array_roundtrip_absent[OF assms(1)]) (rule assms(2))
  then show ?thesis by simp
qed

lemma Query_to_dict_shape:
  "Query_built q \<Longrightarrow>
   Query_to_dict q =
     [(''href'', Query.href q), (''rel'', Query.rel q)]
     @ (if Query.name q = JNull then [] else [(''name'', Query.name q)])
     @ (if Query.prompt q = JNull then [] else [(''prompt'', Query.prompt q)])
     @ (if elems (Query.data q) = [] then []
        else [(''data'', JArr (map (\<lambda>x. JObj (Data_to_dict x)) (elems (Query.data q))))])"
  by (simp add: Query_to_dict_def Query_built_def tagged_def Array_to_dict_def Let_def)

lemma Query_roundtrip:
  assumes "Query_built q"
  shows "Query_call (Query_to_dict q) = Inr q"
proof -
  have arr: "from_iterable_to_array Data_cls Data_call ''data''
           (if elems (Query.data q) = [] then JNull
            else JArr (map (\<lambda>x. JObj (Data_to_dict x)) (elems (Query.data q)))) = Inr (Query.data q)"
    using assms by (intro array_roundtrip) (simp_all add: Query_built_def Data_roundtrip)
  have kw: "kwarg (Query_to_dict q) ''data'' JNull =
      (if elems (Query.data q) = [] then JNull
       else JArr (map (\<lambda>x. JObj (Data_to_dict x)) (elems (Query.data q))))"
    by (simp add: Query_to_dict_shape[OF assms] kwarg_def)
  have bk: "bind_kwargs Query_cls [''href'', ''rel'', ''name'', ''prompt'', ''data'']
          [''href'', ''rel''] (Query_to_dict q) = Inr ()"
    by (simp add: Query_to_dict_shape[OF assms] bind_kwargs_def dict_keys_def)
  have k: "kwarg (Query_to_dict q) ''href'' JNull = Query.href q"
    "kwarg (Query_to_dict q) ''rel'' JNull = Query.rel q"
    "kwarg (Query_to_dict q) ''name'' JNull = Query.name q"
    "kwarg (Query_to_dict q) ''prompt'' JNull = Query.prompt q"
    by (simp_all add: Query_to_dict_shape[OF assms] kwarg_def)
  show ?thesis
    unfolding Query_call_def Query_init_def kw arr bk k by simp
qed

lemma Item_to_dict_shape:
  "Item_built i \<Longrightarrow>
   Item_to_dict i =
     (if truthy (Item.href i) then [(''href'', Item.href i)] else [])
     @ (if elems (Item.data i) = [] then []
        else [(''data'', JArr (map (\<lambda>x. JObj (Data_to_dict x)) (elems (Item.data i))))])
     @ (if elems (Item.links i) = [] then []
        else [(''links'', JArr (map (\<lambda>x. JObj (Link_to_dict x)) (elems (Item.links i))))])"
  by (simp add: Item_to_dict_def Item_built_def tagged_def Array_to_dict_def Let_def)

lemma Item_roundtrip:
  assumes "Item_built i"
  shows "Item_call (Item_to_dict i) = Inr (Item_reparsed i)"
proof -
  have darr: "from_iterable_to_array Data_cls Data_call ''data''
           (if elems (Item.data i) = [] then JNull
            else JArr (map (\<lambda>x. JObj (Data_to_dict x)) (elems (Item.data i)))) = Inr (Item.data i)"
    using assms by (intro array_roundtrip) (simp_all add: Item_built_def Data_roundtrip)
  have larr: "from_iterable_to_array Link_cls Link_call ''links''
           (if elems (Item.links i) = [] then JNull
            else JArr (map (\<lambda>x. JObj (Link_to_dict x)) (elems (Item.links i)))) = Inr (Item.links i)"
    using assms by (intro array_roundtrip) (simp_all add: Item_built_def Link_roundtrip)
  have bk: "bind_kwargs Item_cls [''href'', ''data'', ''links''] [] (Item_to_dict i) = Inr ()"
    by (simp add: Item_to_dict_shape[OF assms] bind_kwargs_def dict_keys_def)
  have k: "kwarg (Item_to_dict i) ''href'' JNull = drop_false (Item.href i)"
    "kwarg (Item_to_dict i) ''data'' JNull =
      (if elems (Item.data i) = [] then JNull
       else JArr (map (\<lambda>x. JObj (Data_to_dict x)) (elems (Item.data i))))"
    "kwarg (Item_to_dict i) ''links'' JNull =
      (if elems (Item.links i) = [] then JNull
       else JArr (map (\<lambda>x. JObj (Link_to_dict x)) (elems (Item.links i))))"
    by (auto simp: Item_to_dict_shape[OF assms] kwarg_def drop_false_def)
  show ?thesis
    unfolding Item_call_def Item_init_def bk k darr larr
    by (cases i) (simp add: Item_reparsed_def)
qed

lemma Template_roundtrip:
  assumes "Template_built t"
  shows "from_dict_or_value Template_cls Template_call
           (Inr (kwarg (Template_to_dict t) ''template'' JNull)) = Inr (Some t)"
proof -
  have "from_iterable_to_array Data_cls Data_call ''data''
           (JArr (map (\<lambda>x. JObj (Data_to_dict x)) (elems (Template.data t)))) =
        Inr \<lparr>item_class = Data_cls, collection_name = ''data'',
             elems = map (\<lambda>x. x) (elems (Template.data t))\<rparr>"
    by (rule array_roundtrip_map) (rule Data_roundtrip)
  then have arr: "from_iterable_to_array Data_cls Data_call ''data''
           (JArr (map (\<lambda>x. JObj (Data_to_dict x)) (elems (Template.data t)))) =
        Inr (Template.data t)"
    using assms by (cases "Template.data t") (simp add: Template_built_def tagged_def)
  have sh: "kwarg (Template_to_dict t) ''template'' JNull =
      JObj [(''data'', JArr (map (\<lambda>x. JObj (Data_to_dict x)) (elems (Template.data t))))]"
    using assms
    by (simp add: Template_to_dict_def kwarg_def Array_to_dict_def Template_built_def tagged_def)
  show ?thesis
    unfolding sh
    by (simp add: Template_call_def Template_init_def bind_kwargs_def dict_keys_def
        kwarg_def arr)
qed

lemma Error_roundtrip:
  "from_dict_or_value Error_cls Error_call (Inr (kwarg (Error_to_dict e) ''error'' JNull))
     = Inr (Some (Error_reparsed e))"
  by (simp add: Error_to_dict_def Error_call_def Error_init_def bind_kwargs_def dict_keys_def
      kwarg_def drop_false_def Error_reparsed_def Let_def)

lemma Collection_roundtrip:
  assumes built: "Collection_built c"
  shows "Collection_from_json (Some (JObj (Collection_to_dict c))) = Inr (Collection_reparsed c)"
proof -
  define inner where "inner =
     [(''version'', version c), (''href'', Collection.href c)]
     @ (if elems (Collection.links c) = [] then []
        else [(''links'', JArr (map (\<lambda>x. JObj (Link_to_dict x)) (elems (Collection.links c))))])
     @ (if elems (items c) = [] then []
        else [(''items'', JArr (map (\<lambda>x. JObj (Item_to_dict x)) (elems (items c))))])
     @ (if elems (queries c) = [] then []
        else [(''queries'', JArr (map (\<lambda>x. JObj (Query_to_dict x)) (elems (queries c))))])
     @ (case template c of None \<Rightarrow> [] | Some t \<Rightarrow> Template_to_dict t)
     @ (case error c of None \<Rightarrow> [] | Some e \<Rightarrow> Error_to_dict e)"
  have shape: "Collection_to_dict c = [(''collection'', JObj inner)]"
    unfolding inner_def by (rule Collection_to_dict_shape[OF built])
  have bk: "bind_kwargs Collection_cls
          [''href'', ''links'', ''items'', ''queries'', ''template'', ''error'', ''version'']
          [''href''] inner = Inr ()"
    by (simp add: inner_def bind_kwargs_def dict_keys_def Template_to_dict_def Error_to_dict_def
        Let_def split: option.splits)
  have k_href: "kwarg inner ''href'' JNull = Collection.href c"
    and k_version: "kwarg inner ''version'' (JStr ''1.0'') = version c"
    by (simp_all add: inner_def kwarg_def)
  have k_links: "kwarg inner ''links'' JNull =
      (if elems (Collection.links c) = [] then JNull
       else JArr (map (\<lambda>x. JObj (Link_to_dict x)) (elems (Collection.links c))))"
    by (simp add: inner_def kwarg_def Template_to_dict_def Error_to_dict_def Let_def
        split: option.splits)
  have k_items: "kwarg inner ''items'' JNull =
      (if elems (items c) = [] then JNull
       else JArr (map (\<lambda>x. JObj (Item_to_dict x)) (elems (items c))))"
    by (simp add: inner_def kwarg_def Template_to_dict_def Error_to_dict_def Let_def
        split: option.splits)
  have k_queries: "kwarg inner ''queries'' JNull =
      (if elems (queries c) = [] then JNull
       else JArr (map (\<lambda>x. JObj (Query_to_dict x)) (elems (queries c))))"
    by (simp add: inner_def kwarg_def Template_to_dict_def Error_to_dict_def Let_def
        split: option.splits)
  have k_template: "kwarg inner ''template'' JNull =
      (case template c of None \<Rightarrow> JNull | Some t \<Rightarrow> kwarg (Template_to_dict t) ''template'' JNull)"
    by (simp add: inner_def kwarg_def Template_to_dict_def Error_to_dict_def Let_def
        split: option.splits)
  have k_error: "kwarg inner ''error'' JNull =
      (case error c of None \<Rightarrow> JNull | Some e \<Rightarrow> kwarg (Error_to_dict e) ''error'' JNull)"
    by (simp add: inner_def kwarg_def Template_to_dict_def Error_to_dict_def Let_def
        split: option.splits)
  have r_error: "from_dict_or_value Error_cls Error_call (Inr (kwarg inner ''error'' JNull))
      = Inr (map_option Error_reparsed (error c))"
    by (cases "error c") (simp_all add: k_error Error_roundtrip)
  have r_template: "from_dict_or_value Template_cls Template_call
      (Inr (kwarg inner ''template'' JNull)) = Inr (template c)"
    using built
    by (cases "template c") (simp_all add: k_template Collection_built_def Template_roundtrip)
  have r_items: "from_iterable_to_array Item_cls Item_call ''items'' (kwarg inner ''items'' JNull)
      = Inr ((items c)\<lparr>elems := map Item_reparsed (elems (items c))\<rparr>)"
    unfolding k_items
    using built
    by (intro array_roundtrip_absent)
      (auto simp: Collection_built_def list_all_iff intro: Item_roundtrip)
  have r_links: "from_iterable_to_array Link_cls Link_call ''links'' (kwarg inner ''links'' JNull)
      = Inr (Collection.links c)"
    unfolding k_links
    using built by (intro array_roundtrip) (simp_all add: Collection_built_def Link_roundtrip)
  have r_queries: "from_iterable_to_array Query_cls Query_call ''queries''
      (kwarg inner ''queries'' JNull) = Inr (queries c)"
    unfolding k_queries
    using built
    by (intro array_roundtrip)
      (auto simp: Collection_built_def list_all_iff intro: Query_roundtrip)
  have call: "Collection_call inner = Inr (Collection_reparsed c)"
    unfolding Collection_call_def Collection_init_def bk k_href k_version r_error r_template
      r_items r_links r_queries
    by (cases c) (simp add: Collection_reparsed_def)
  have "truthy (JObj inner)" by (simp add: inner_def)
  then show ?thesis
    by (simp add: Collection_from_json_def shape call)
qed

text \<open>
  Claim C1, as the code has it. For every document that \<^verbatim>\<open>Collection.from_json\<close>
  parses into a model \<open>M\<close>, parsing the serialisation of \<open>M\<close> succeeds and gives
  \<open>M\<close> with every false href of an item and every false field of the error replaced
  by \<^verbatim>\<open>None\<close>. The result is \<open>M\<close> itself exactly when each of these attributes is
  \<^verbatim>\<open>None\<close> or true. (The serialisation is handed over as the decoded value:
  \<^verbatim>\<open>json.loads\<close> undoes \<^verbatim>\<open>json.dumps\<close> on the values of the model.)
\<close>

theorem from_json_roundtrip:
  "Collection_from_json D = Inr M \<Longrightarrow>
     Collection_from_json (Some (JObj (Collection_to_dict M))) = Inr (Collection_reparsed M)
   \<and> (Collection_from_json (Some (JObj (Collection_to_dict M))) = Inr M \<longleftrightarrow> keeps_fields M)"
  using Collection_roundtrip[OF from_json_built, of D M] Collection_reparsed_id[of M]
  by auto

theorem from_json_roundtrip_witness:
  "Collection_from_json (Some doc_end_to_end) = Inr model_end_to_end
   \<and> keeps_fields model_end_to_end
   \<and> Collection_from_json (Some (JObj (Collection_to_dict model_end_to_end))) =
       Inr model_end_to_end"
proof -
  have p: "Collection_from_json (Some doc_end_to_end) = Inr model_end_to_end"
    by (simp add: doc_end_to_end_def model_end_to_end_def evaluation)
  have k: "keeps_fields model_end_to_end"
    by (simp add: keeps_fields_def none_or_true_def model_end_to_end_def bare_collection_def)
  from from_json_roundtrip[OF p] k
  have "Collection_from_json (Some (JObj (Collection_to_dict model_end_to_end))) =
      Inr model_end_to_end"
    by blast
  with p k show ?thesis by blast
qed

text \<open>
  The claim as stated fails when an error code, or the href of an item, is the empty
  string: \<^verbatim>\<open>to_dict\<close> leaves the key out and the attribute comes back as
  \<^verbatim>\<open>None\<close>.
\<close>

theorem from_json_roundtrip_counterexample:
  "Collection_from_json (Some doc_empty_code) =
     Inr (bare_collection\<lparr>error := Some \<lparr>code = JStr '''', message = JNull, title = JNull\<rparr>\<rparr>)
   \<and> Collection_from_json (Some (JObj (Collection_to_dict
        (bare_collection\<lparr>error := Some \<lparr>code = JStr '''', message = JNull, title = JNull\<rparr>\<rparr>)))) =
     Inr (bare_collection\<lparr>error := Some \<lparr>code = JNull, message = JNull, title = JNull\<rparr>\<rparr>)
   \<and> bare_collection\<lparr>error := Some \<lparr>code = JNull, message = JNull, title = JNull\<rparr>\<rparr>
       \<noteq> bare_collection\<lparr>error := Some \<lparr>code = JStr '''', message = JNull, title = JNull\<rparr>\<rparr>
   \<and> Collection_from_json (Some doc_empty_href) =
     Inr (bare_collection\<lparr>items := \<lparr>item_class = Item_cls, collection_name = ''items'',
       elems = [\<lparr>Item.href = JStr '''', Item.data = empty_array Data_cls ''data'',
                 Item.links = empty_array Link_cls ''links''\<rparr>]\<rparr>\<rparr>)
   \<and> Collection_from_json (Some (JObj (Collection_to_dict
        (bare_collection\<lparr>items := \<lparr>item_class = Item_cls, collection_name = ''items'',
          elems = [\<lparr>Item.href = JStr '''', Item.data = empty_array Data_cls ''data'',
                    Item.links = empty_array Link_cls ''links''\<rparr>]\<rparr>\<rparr>)))) =
     Inr (bare_collection\<lparr>items := \<lparr>item_class = Item_cls, collection_name = ''items'',
       elems = [\<lparr>Item.href = JNull, Item.data = empty_array Data_cls ''data'',
                 Item.links = empty_array Link_cls ''links''\<rparr>]\<rparr>\<rparr>)
   \<and> bare_collection\<lparr>items := \<lparr>item_class = Item_cls, collection_name = ''items'',
       elems = [\<lparr>Item.href = JNull, Item.data = empty_array Data_cls ''data'',
                 Item.links = empty_array Link_cls ''links''\<rparr>]\<rparr>\<rparr>
     \<noteq> bare_collection\<lparr>items := \<lparr>item_class = Item_cls, collection_name = ''items'',
       elems = [\<lparr>Item.href = JStr '''', Item.data = empty_array Data_cls ''data'',
                 Item.links = empty_array Link_cls ''links''\<rparr>]\<rparr>\<rparr>"
  by (simp add: doc_empty_code_def doc_empty_href_def evaluation)

section \<open>Parsing an object\<close>

text \<open>
  No constructor raises a \<^verbatim>\<open>ValueError\<close> with a fixed message, so when the text
  decodes to an object the error of \<^verbatim>\<open>from_json\<close> is raised exactly when the key
  is missing or its value is false, and a success is the constructor called with the
  value of the key as keyword arguments.
\<close>

lemma and_then_Inl:
  "and_then r f = Inl e \<longleftrightarrow> r = Inl e \<or> (\<exists>x. r = Inr x \<and> f x = Inl e)"
  by (cases r) auto

lemma bind_kwargs_not_Literal: "bind_kwargs c ps rs kw = Inl e \<Longrightarrow> \<not> is_Literal e"
  by (auto simp: bind_kwargs_def split: option.splits list.splits if_splits)

lemma Data_call_not_Literal: "Data_call kw = Inl e \<Longrightarrow> \<not> is_Literal e"
  by (auto simp: Data_call_def and_then_Inl dest: bind_kwargs_not_Literal)

lemma Link_call_not_Literal: "Link_call kw = Inl e \<Longrightarrow> \<not> is_Literal e"
  by (auto simp: Link_call_def and_then_Inl dest: bind_kwargs_not_Literal)

lemma Error_call_not_Literal: "Error_call kw = Inl e \<Longrightarrow> \<not> is_Literal e"
  by (auto simp: Error_call_def and_then_Inl dest: bind_kwargs_not_Literal)

lemma build_items_loop_not_Literal:
  "build_items_loop c call acc xs = Inl e \<Longrightarrow> (\<And>d e. call d = Inl e \<Longrightarrow> \<not> is_Literal e) \<Longrightarrow>
   \<not> is_Literal e"
  by (induction c call acc xs rule: build_items_loop.induct) (auto split: sum.splits)

lemma iterate_not_Literal: "iterate v = Inl e \<Longrightarrow> \<not> is_Literal e"
  by (cases v) auto

lemma from_iterable_to_array_not_Literal:
  assumes "from_iterable_to_array c call cname v = Inl e"
    and "\<And>d e. call d = Inl e \<Longrightarrow> \<not> is_Literal e"
  shows "\<not> is_Literal e"
  using assms(1)
  by (auto simp: from_iterable_to_array_def Array_init_def Array_build_items_def and_then_Inl
      Let_def
      dest: iterate_not_Literal build_items_loop_not_Literal[OF _ assms(2)] split: if_splits)

lemma from_dict_or_value_not_Literal:
  assumes "from_dict_or_value c call (Inr v) = Inl e"
    and "\<And>d e. call d = Inl e \<Longrightarrow> \<not> is_Literal e"
  shows "\<not> is_Literal e"
  using assms by (cases v) (auto simp: and_then_Inl)

lemma Query_call_not_Literal: "Query_call kw = Inl e \<Longrightarrow> \<not> is_Literal e"
  by (auto simp: Query_call_def Query_init_def and_then_Inl
      dest: bind_kwargs_not_Literal
        from_iterable_to_array_not_Literal[OF _ Data_call_not_Literal])

lemma Item_call_not_Literal: "Item_call kw = Inl e \<Longrightarrow> \<not> is_Literal e"
  by (auto simp: Item_call_def Item_init_def and_then_Inl
      dest: bind_kwargs_not_Literal
        from_iterable_to_array_not_Literal[OF _ Data_call_not_Literal]
        from_iterable_to_array_not_Literal[OF _ Link_call_not_Literal])

lemma Template_call_not_Literal: "Template_call kw = Inl e \<Longrightarrow> \<not> is_Literal e"
  by (auto simp: Template_call_def Template_init_def and_then_Inl
      dest: bind_kwargs_not_Literal
        from_iterable_to_array_not_Literal[OF _ Data_call_not_Literal])

lemma Collection_call_not_Literal: "Collection_call kw = Inl e \<Longrightarrow> \<not> is_Literal e"
  by (auto simp: Collection_call_def Collection_init_def and_then_Inl
      dest: bind_kwargs_not_Literal
        from_dict_or_value_not_Literal[OF _ Error_call_not_Literal]
        from_dict_or_value_not_Literal[OF _ Template_call_not_Literal]
        from_iterable_to_array_not_Literal[OF _ Item_call_not_Literal]
        from_iterable_to_array_not_Literal[OF _ Link_call_not_Literal]
        from_iterable_to_array_not_Literal[OF _ Query_call_not_Literal])

lemma call_with_not_Literal:
  "call_with call v = Inl e \<Longrightarrow> (\<And>d e. call d = Inl e \<Longrightarrow> \<not> is_Literal e) \<Longrightarrow> \<not> is_Literal e"
  by (cases v) auto

lemma Collection_from_json_format_error:
  "Collection_from_json D = Inl (ValueError (Literal ''Not a valid Collection+JSON document.''))
   \<longleftrightarrow> (case D of
          None \<Rightarrow> True
        | Some d \<Rightarrow> (case d of JObj kvs \<Rightarrow> \<not> truthy (kwarg kvs ''collection'' JNull) | _ \<Rightarrow> False))"
proof (cases D)
  case None
  then show ?thesis by (simp add: Collection_from_json_def)
next
  case (Some d)
  show ?thesis
  proof (cases d)
    case (JObj kvs)
    show ?thesis
    proof (cases "truthy (kwarg kvs ''collection'' JNull)")
      case True
      have "\<not> is_Literal e" if "call_with Collection_call (kwarg kvs ''collection'' JNull) = Inl e" for e
        using that by (rule call_with_not_Literal) (rule Collection_call_not_Literal)
      then have "call_with Collection_call (kwarg kvs ''collection'' JNull) \<noteq>
          Inl (ValueError (Literal ''Not a valid Collection+JSON document.''))"
        by fastforce
      with True Some JObj show ?thesis
        by (simp add: Collection_from_json_def kwarg_def)
    next
      case False
      with Some JObj show ?thesis by (simp add: Collection_from_json_def kwarg_def)
    qed
  qed (simp_all add: Some Collection_from_json_def)
qed

lemma Template_from_json_format_error:
  "Template_from_json D = Inl (ValueError (Literal ''Not valid Collection+JSON template data.''))
   \<longleftrightarrow> (case D of
          None \<Rightarrow> True
        | Some d \<Rightarrow> (case d of JObj kvs \<Rightarrow> \<not> truthy (kwarg kvs ''template'' JNull) | _ \<Rightarrow> False))"
proof (cases D)
  case None
  then show ?thesis by (simp add: Template_from_json_def)
next
  case (Some d)
  show ?thesis
  proof (cases d)
    case (JObj kvs)
    show ?thesis
    proof (cases "truthy (kwarg kvs ''template'' JNull)")
      case True
      have "\<not> is_Literal e" if "call_with Template_call (kwarg kvs ''template'' JNull) = Inl e" for e
        using that by (rule call_with_not_Literal) (rule Template_call_not_Literal)
      then have "call_with Template_call (kwarg kvs ''template'' JNull) \<noteq>
          Inl (ValueError (Literal ''Not valid Collection+JSON template data.''))"
        by fastforce
      with True Some JObj show ?thesis
        by (simp add: Template_from_json_def kwarg_def)
    next
      case False
      with Some JObj show ?thesis by (simp add: Template_from_json_def kwarg_def)
    qed
  qed (simp_all add: Some Template_from_json_def)
qed

lemma from_json_success:
  "Collection_from_json D = Inr M \<longleftrightarrow>
     (\<exists>kvs kwargs. D = Some (JObj kvs) \<and> map_of kvs ''collection'' = Some (JObj kwargs)
        \<and> kwargs \<noteq> [] \<and> Collection_call kwargs = Inr M)"
proof
  assume a: "Collection_from_json D = Inr M"
  then obtain d where D: "D = Some d" by (cases D) (simp_all add: Collection_from_json_def)
  with a obtain kvs where d: "d = JObj kvs" by (cases d) (simp_all add: Collection_from_json_def)
  from a D d have t: "truthy (kwarg kvs ''collection'' JNull)"
    and c: "call_with Collection_call (kwarg kvs ''collection'' JNull) = Inr M"
    by (auto simp: Collection_from_json_def kwarg_def split: if_splits)
  from c obtain kwargs where k: "kwarg kvs ''collection'' JNull = JObj kwargs"
    and "Collection_call kwargs = Inr M"
    by (cases "kwarg kvs ''collection'' JNull") auto
  with t D d show "\<exists>kvs kwargs. D = Some (JObj kvs) \<and> map_of kvs ''collection'' = Some (JObj kwargs)
        \<and> kwargs \<noteq> [] \<and> Collection_call kwargs = Inr M"
    by (auto simp: kwarg_def split: option.splits)
next
  assume "\<exists>kvs kwargs. D = Some (JObj kvs) \<and> map_of kvs ''collection'' = Some (JObj kwargs)
        \<and> kwargs \<noteq> [] \<and> Collection_call kwargs = Inr M"
  then show "Collection_from_json D = Inr M"
    by (auto simp: Collection_from_json_def)
qed

end
